theory Spec2Isabelle
  imports Main
begin

section \<open>Values, resources and the resource set\<close>

text \<open>
  The builder of \<^verbatim>\<open>pkg/cfn/builder/vpc_ipv4.go\<close> declares CloudFormation resources
  into a shared resource set and wires them with template values. A template value
  (\<^verbatim>\<open>*gfnt.Value\<close>) is kept as the expression the code builds; a pointer that may be
  \<^verbatim>\<open>nil\<close> is an \<open>option\<close>.
\<close>

datatype gval =
    NewString string
  | NewInteger int
  | GfnTrue
  | MakeRef string
  | MakeFnGetAttString string string
  | MakeFnSelect gval gval
  | SubnetIPv6CIDRBlock int

text \<open>
  Modelled from the spec: \<^verbatim>\<open>getSubnetIPv6CIDRBlock\<close> is declared outside the file; it
  yields the precomputed pool of secondary address blocks, of the size it is given. The
  model keeps the call as the constructor \<open>SubnetIPv6CIDRBlock\<close>.
\<close>

definition getSubnetIPv6CIDRBlock :: "int \<Rightarrow> gval" where
  "getSubnetIPv6CIDRBlock cidrPartitions = SubnetIPv6CIDRBlock cidrPartitions"

text \<open>
  Modelled from the spec: the constant \<^verbatim>\<open>InternetCIDR\<close> is declared outside the file;
  the default route is \<^verbatim>\<open>0.0.0.0/0\<close>.
\<close>

definition InternetCIDR :: string where
  "InternetCIDR = ''0.0.0.0/0''"

datatype resource =
    EC2_VPC (CidrBlock: gval) (EnableDnsSupport: gval) (EnableDnsHostnames: gval)
  | EC2_VPCCidrBlock (VpcId: gval) (AmazonProvidedIpv6CidrBlock: gval)
  | EC2_InternetGateway
  | EC2_VPCGatewayAttachment (InternetGatewayId: gval) (VpcId: gval)
  | EC2_RouteTable (VpcId: gval)
  | EC2_Route (RouteTableId: gval) (DestinationCidrBlock: gval)
      (GatewayId: "gval option") (NatGatewayId: "gval option") (DependsOn: "string list")
  | EC2_Subnet (SubnetAZ: gval) (CidrBlock: gval) (VpcId: gval)
      (Tags: "(gval \<times> gval) list") (MapPublicIpOnLaunch: "gval option")
  | EC2_SubnetRouteTableAssociation (SubnetId: gval) (AssocRouteTableId: "gval option")
  | EC2_EIP (Domain: gval)
  | EC2_NatGateway (AllocationId: gval) (SubnetId: gval)
  | EC2_SubnetCidrBlock (SubnetId: gval) (Ipv6CidrBlock: gval)

text \<open>
  Modelled from the spec: the resource set (\<^verbatim>\<open>resourceSet\<close>) is declared outside the
  file. Its \<^verbatim>\<open>newResource\<close> accepts a named resource declaration and returns a reference
  usable in other declarations. The model keeps the declarations in the order they are
  made, and the reference is the by-name reference to the declared resource.
\<close>

type_synonym resourceSet = "(string \<times> resource) list"

definition newResource :: "resourceSet \<Rightarrow> string \<Rightarrow> resource \<Rightarrow> resourceSet \<times> gval" where
  "newResource r name res = (r @ [(name, res)], MakeRef name)"

section \<open>The cluster configuration\<close>

text \<open>
  \<^verbatim>\<open>api.AZSubnetSpec\<close>; the address block is kept as the text \<^verbatim>\<open>CIDR.String()\<close> gives.
\<close>

record AZSubnetSpec =
  ID :: string
  AZ :: string
  CIDR :: string

text \<open>
  A Go map from subnet name to subnet spec is a list of entries with distinct names, in
  the order one \<^verbatim>\<open>range\<close> over the map enumerates them; Go leaves that order
  unspecified, so every permutation of the entries is a possible enumeration. A
  \<^verbatim>\<open>nil\<close> map is \<open>None\<close>.
\<close>

type_synonym subnetMap = "(string \<times> AZSubnetSpec) list"

record ClusterSubnets =
  Subnets_Private :: "subnetMap option"
  Subnets_Public :: "subnetMap option"

text \<open>
  The NAT gateway mode is a string in the source, compared with three constants of
  package \<^verbatim>\<open>api\<close>; every other string is \<open>UnknownNAT\<close>. The pointers
  \<^verbatim>\<open>VPC.NAT\<close>, \<^verbatim>\<open>VPC.NAT.Gateway\<close> and \<^verbatim>\<open>PrivateCluster\<close> are taken as set, as the
  configuration defaults leave them.
\<close>

datatype ClusterNAT =
    ClusterHighlyAvailableNAT
  | ClusterSingleNAT
  | ClusterDisableNAT
  | UnknownNAT string

record ClusterVPC =
  VPC_ID :: string
  VPC_CIDR :: string
  Subnets :: ClusterSubnets
  NAT_Gateway :: ClusterNAT
  AutoAllocateIPv6 :: "bool option"

record ClusterConfig =
  VPC :: ClusterVPC
  PrivateCluster_Enabled :: bool
  AvailabilityZones :: "string list"

text \<open>
  Modelled from the spec: \<^verbatim>\<open>api.IsEnabled\<close> is declared outside the file; a flag is
  enabled when it is set and true, and a \<^verbatim>\<open>nil\<close> flag is not enabled.
\<close>

definition IsEnabled :: "bool option \<Rightarrow> bool" where
  "IsEnabled v = (case v of None \<Rightarrow> False | Some b \<Rightarrow> b)"

text \<open>
  Modelled from the spec: the two constants of \<^verbatim>\<open>api.SubnetTopology\<close> are declared
  outside the file; as strings they are the role of the convention
  \<^verbatim>\<open>Subnet<Role><ZoneAlias>\<close>, which the NAT strategies write out as
  \<^verbatim>\<open>SubnetPrivate\<close> and \<^verbatim>\<open>SubnetPublic\<close>. The allocator is only called with these two.
\<close>

datatype SubnetTopology = SubnetTopologyPrivate | SubnetTopologyPublic

fun topology_string :: "SubnetTopology \<Rightarrow> string" where
  "topology_string SubnetTopologyPrivate = ''Private''"
| "topology_string SubnetTopologyPublic = ''Public''"

section \<open>The builder's state\<close>

record SubnetResource =
  Subnet :: gval
  RouteTable :: "gval option"
  AvailabilityZone :: string

record SubnetDetails =
  Private :: "SubnetResource list"
  Public :: "SubnetResource list"

record IPv4VPCResourceSet =
  rs :: resourceSet
  clusterConfig :: ClusterConfig
  vpcID :: gval
  subnetDetails :: SubnetDetails

datatype panic = IndexOutOfRange | NilPointerDereference

datatype error =
    InvalidNATMode string
  | NoExplicitRouteTable string
  | MainRouteTable
  | DescribeRouteTablesError string
  | ErrorImportingVPCResources error

section \<open>Strings\<close>

fun Split :: "string \<Rightarrow> char \<Rightarrow> string list" where
  "Split [] sep = [[]]"
| "Split (c # cs) sep =
     (if c = sep then [] # Split cs sep
      else (case Split cs sep of [] \<Rightarrow> [[c]] | p # ps \<Rightarrow> (c # p) # ps))"

fun Join :: "string list \<Rightarrow> string \<Rightarrow> string" where
  "Join [] sep = []"
| "Join [p] sep = p"
| "Join (p # q # ps) sep = p @ sep @ Join (q # ps) sep"

text \<open>
  \<^verbatim>\<open>strings.ToUpper\<close> on ASCII text: the letters a to z are raised, every other byte
  is kept. Go also raises the letters outside ASCII; names with such letters are outside
  the model, which the theorems only evaluate at ASCII names.
\<close>

definition upper_char :: "char \<Rightarrow> char" where
  "upper_char c =
     (let n = (of_char c :: nat) in if 97 \<le> n \<and> n \<le> 122 then char_of (n - 32) else c)"

definition ToUpper :: "string \<Rightarrow> string" where
  "ToUpper s = map upper_char s"

text \<open>
  The alias of a name, as \<^verbatim>\<open>addSubnets\<close>, \<^verbatim>\<open>singleNAT\<close> and \<^verbatim>\<open>noNAT\<close> write it inline:
  \<^verbatim>\<open>strings.ToUpper(strings.Join(strings.Split(name, "-"), ""))\<close>.
\<close>

definition aliasOf :: "string \<Rightarrow> string" where
  "aliasOf name = ToUpper (Join (Split name (CHR ''-'')) [])"

text \<open>
  Modelled from the spec: \<^verbatim>\<open>formatAZ\<close>, which \<^verbatim>\<open>haNAT\<close> calls, is declared outside the
  file. Logical names follow one convention for the zone alias (uppercased, separators
  stripped), the one the sibling strategies write inline.
\<close>

definition formatAZ :: "string \<Rightarrow> string" where
  "formatAZ az = aliasOf az"

section \<open>The constructor\<close>

definition NewIPv4VPCResourceSet :: "resourceSet \<Rightarrow> ClusterConfig \<Rightarrow> IPv4VPCResourceSet" where
  "NewIPv4VPCResourceSet r cfg =
     (if VPC_ID (VPC cfg) = []
      then (let (r', vpcRef) =
                  newResource r ''VPC''
                    (EC2_VPC (NewString (VPC_CIDR (VPC cfg))) GfnTrue GfnTrue)
            in \<lparr>rs = r', clusterConfig = cfg, vpcID = vpcRef,
                subnetDetails = \<lparr>Private = [], Public = []\<rparr>\<rparr>)
      else \<lparr>rs = r, clusterConfig = cfg, vpcID = NewString (VPC_ID (VPC cfg)),
             subnetDetails = \<lparr>Private = [], Public = []\<rparr>\<rparr>)"

definition isFullyPrivate :: "IPv4VPCResourceSet \<Rightarrow> bool" where
  "isFullyPrivate v = PrivateCluster_Enabled (clusterConfig v)"

section \<open>The NAT strategies\<close>

text \<open>One iteration of the loop of \<^verbatim>\<open>haNAT\<close>, and the loop over the zones.\<close>

definition haNAT_zone :: "gval \<Rightarrow> resourceSet \<Rightarrow> string \<Rightarrow> resourceSet" where
  "haNAT_zone vpc r az =
     (let alphanumericUpperAZ = formatAZ az;
          (r1, _) = newResource r (''NATIP'' @ alphanumericUpperAZ) (EC2_EIP (NewString ''vpc''));
          (r2, refNG) = newResource r1 (''NATGateway'' @ alphanumericUpperAZ)
             (EC2_NatGateway (MakeFnGetAttString (''NATIP'' @ alphanumericUpperAZ) ''AllocationId'')
                (MakeRef (''SubnetPublic'' @ alphanumericUpperAZ)));
          (r3, refRT) = newResource r2 (''PrivateRouteTable'' @ alphanumericUpperAZ)
             (EC2_RouteTable vpc);
          (r4, _) = newResource r3 (''NATPrivateSubnetRoute'' @ alphanumericUpperAZ)
             (EC2_Route refRT (NewString InternetCIDR) None (Some refNG) []);
          (r5, _) = newResource r4 (''RouteTableAssociationPrivate'' @ alphanumericUpperAZ)
             (EC2_SubnetRouteTableAssociation
                (MakeRef (''SubnetPrivate'' @ alphanumericUpperAZ)) (Some refRT))
      in r5)"

definition haNAT :: "IPv4VPCResourceSet \<Rightarrow> IPv4VPCResourceSet" where
  "haNAT v = v\<lparr>rs := foldl (haNAT_zone (vpcID v)) (rs v) (AvailabilityZones (clusterConfig v))\<rparr>"

definition singleNAT_zone :: "gval \<Rightarrow> gval \<Rightarrow> resourceSet \<Rightarrow> string \<Rightarrow> resourceSet" where
  "singleNAT_zone vpc refNG r az =
     (let alphanumericUpperAZ = ToUpper (Join (Split az (CHR ''-'')) []);
          (r1, refRT) = newResource r (''PrivateRouteTable'' @ alphanumericUpperAZ)
             (EC2_RouteTable vpc);
          (r2, _) = newResource r1 (''NATPrivateSubnetRoute'' @ alphanumericUpperAZ)
             (EC2_Route refRT (NewString InternetCIDR) None (Some refNG) []);
          (r3, _) = newResource r2 (''RouteTableAssociationPrivate'' @ alphanumericUpperAZ)
             (EC2_SubnetRouteTableAssociation
                (MakeRef (''SubnetPrivate'' @ alphanumericUpperAZ)) (Some refRT))
      in r3)"

text \<open>
  \<^verbatim>\<open>singleNAT\<close> reads \<^verbatim>\<open>sortedAZs[0]\<close> first: on an empty zone list the Go runtime
  panics with an index out of range, before anything is declared.
\<close>

definition singleNAT :: "IPv4VPCResourceSet \<Rightarrow> panic + IPv4VPCResourceSet" where
  "singleNAT v =
     (let sortedAZs = AvailabilityZones (clusterConfig v) in
      case sortedAZs of
        [] \<Rightarrow> Inl IndexOutOfRange
      | az0 # _ \<Rightarrow>
          (let firstUpperAZ = ToUpper (Join (Split az0 (CHR ''-'')) []);
               (r1, _) = newResource (rs v) ''NATIP'' (EC2_EIP (NewString ''vpc''));
               (r2, refNG) = newResource r1 ''NATGateway''
                  (EC2_NatGateway (MakeFnGetAttString ''NATIP'' ''AllocationId'')
                     (MakeRef (''SubnetPublic'' @ firstUpperAZ)))
           in Inr (v\<lparr>rs := foldl (singleNAT_zone (vpcID v) refNG) r2
                               (AvailabilityZones (clusterConfig v))\<rparr>)))"

definition noNAT_zone :: "gval \<Rightarrow> resourceSet \<Rightarrow> string \<Rightarrow> resourceSet" where
  "noNAT_zone vpc r az =
     (let alphanumericUpperAZ = ToUpper (Join (Split az (CHR ''-'')) []);
          (r1, refRT) = newResource r (''PrivateRouteTable'' @ alphanumericUpperAZ)
             (EC2_RouteTable vpc);
          (r2, _) = newResource r1 (''RouteTableAssociationPrivate'' @ alphanumericUpperAZ)
             (EC2_SubnetRouteTableAssociation
                (MakeRef (''SubnetPrivate'' @ alphanumericUpperAZ)) (Some refRT))
      in r2)"

definition noNAT :: "IPv4VPCResourceSet \<Rightarrow> IPv4VPCResourceSet" where
  "noNAT v = v\<lparr>rs := foldl (noNAT_zone (vpcID v)) (rs v) (AvailabilityZones (clusterConfig v))\<rparr>"

text \<open>
  \<^verbatim>\<open>addNATGateways\<close>: the switch on the NAT mode. The default branch returns the error
  and declares nothing.
\<close>

definition addNATGateways :: "IPv4VPCResourceSet \<Rightarrow> panic + (error option \<times> IPv4VPCResourceSet)" where
  "addNATGateways v =
     (case NAT_Gateway (VPC (clusterConfig v)) of
        ClusterHighlyAvailableNAT \<Rightarrow> Inr (None, haNAT v)
      | ClusterSingleNAT \<Rightarrow>
          (case singleNAT v of Inl p \<Rightarrow> Inl p | Inr v' \<Rightarrow> Inr (None, v'))
      | ClusterDisableNAT \<Rightarrow> Inr (None, noNAT v)
      | UnknownNAT s \<Rightarrow> Inr (Some (InvalidNATMode s), v))"

section \<open>The subnet allocator\<close>

text \<open>
  The loop of \<^verbatim>\<open>addSubnets\<close> carries the resource set, the route-table reference
  \<^verbatim>\<open>refRT\<close> (reassigned for a private subnet), the counter \<^verbatim>\<open>subnetIndexForIPv6\<close> and
  the collected subnet resources. \<open>addSubnets_subnet\<close> is one iteration.
\<close>

type_synonym addSubnets_state = "resourceSet \<times> gval option \<times> int \<times> SubnetResource list"

definition addSubnets_subnet ::
  "IPv4VPCResourceSet \<Rightarrow> SubnetTopology \<Rightarrow> addSubnets_state \<Rightarrow> string \<times> AZSubnetSpec \<Rightarrow> addSubnets_state" where
  "addSubnets_subnet v topology st entry =
     (let (r, refRT, subnetIndexForIPv6, subnetResources) = st;
          (name, subnet) = entry;
          az = AZ subnet;
          nameAlias = ToUpper (Join (Split name (CHR ''-'')) []);
          refRT' = (case topology of
                      SubnetTopologyPrivate \<Rightarrow> Some (MakeRef (''PrivateRouteTable'' @ nameAlias))
                    | SubnetTopologyPublic \<Rightarrow> refRT);
          res = EC2_Subnet (NewString az) (NewString (CIDR subnet)) (vpcID v)
                  (case topology of
                     SubnetTopologyPrivate \<Rightarrow>
                       [(NewString ''kubernetes.io/role/internal-elb'', NewString ''1'')]
                   | SubnetTopologyPublic \<Rightarrow>
                       [(NewString ''kubernetes.io/role/elb'', NewString ''1'')])
                  (case topology of
                     SubnetTopologyPrivate \<Rightarrow> None
                   | SubnetTopologyPublic \<Rightarrow> Some GfnTrue);
          subnetAlias = topology_string topology @ nameAlias;
          (r1, refSubnet) = newResource r (''Subnet'' @ subnetAlias) res;
          (r2, _) = newResource r1 (''RouteTableAssociation'' @ subnetAlias)
                      (EC2_SubnetRouteTableAssociation refSubnet refRT');
          (r3, subnetIndexForIPv6') =
             (if IsEnabled (AutoAllocateIPv6 (VPC (clusterConfig v)))
              then (let refSubnetSlices = getSubnetIPv6CIDRBlock
                          (int (length (AvailabilityZones (clusterConfig v))) * 2 + 2);
                        (r3, _) = newResource r2 (subnetAlias @ ''CIDRv6'')
                          (EC2_SubnetCidrBlock refSubnet
                             (MakeFnSelect (NewInteger subnetIndexForIPv6) refSubnetSlices))
                    in (r3, subnetIndexForIPv6 + 1))
              else (r2, subnetIndexForIPv6))
      in (r3, refRT', subnetIndexForIPv6',
          subnetResources @ [\<lparr>Subnet = refSubnet, RouteTable = refRT', AvailabilityZone = az\<rparr>]))"

definition addSubnets ::
  "IPv4VPCResourceSet \<Rightarrow> gval option \<Rightarrow> SubnetTopology \<Rightarrow> subnetMap option
     \<Rightarrow> IPv4VPCResourceSet \<times> SubnetResource list" where
  "addSubnets v refRT topology subnets =
     (let subnetIndexForIPv6 =
            (if IsEnabled (AutoAllocateIPv6 (VPC (clusterConfig v)))
             then (case topology of
                     SubnetTopologyPrivate \<Rightarrow> int (length (AvailabilityZones (clusterConfig v)))
                   | SubnetTopologyPublic \<Rightarrow> 0)
             else 0);
          (r, _, _, subnetResources) =
             foldl (addSubnets_subnet v topology) (rs v, refRT, subnetIndexForIPv6, [])
               (case subnets of None \<Rightarrow> [] | Some m \<Rightarrow> m)
      in (v\<lparr>rs := r\<rparr>, subnetResources))"

section \<open>The import reconciler\<close>

text \<open>
  The remote directory: \<^verbatim>\<open>ec2.RouteTable\<close> and its associations, whose fields are
  pointers (\<^verbatim>\<open>nil\<close> is \<open>None\<close>), and the one call the builder makes,
  \<^verbatim>\<open>DescribeRouteTables\<close>, a query from the subnet identifiers of the filter and the
  continuation token to an error or a page.
\<close>

record RouteTableAssociation =
  rta_Main :: "bool option"
  rta_SubnetId :: "string option"

record RouteTable_ec2 =
  rt_RouteTableId :: "string option"
  rt_Associations :: "RouteTableAssociation list"

record DescribeRouteTablesOutput =
  RouteTables :: "RouteTable_ec2 list"
  NextToken :: "string option"

type_synonym ec2API = "string list \<Rightarrow> string option \<Rightarrow> string + DescribeRouteTablesOutput"

text \<open>
  The pagination loop of \<^verbatim>\<open>importRouteTables\<close>: it runs until a call fails or a page
  carries no continuation token, and so may run forever.
\<close>

partial_function (option) describeAllRouteTables ::
  "ec2API \<Rightarrow> string list \<Rightarrow> string option \<Rightarrow> RouteTable_ec2 list
     \<Rightarrow> (error + RouteTable_ec2 list) option" where
  "describeAllRouteTables ec2 subnetIDs nextToken routeTables =
     (case ec2 subnetIDs nextToken of
        Inl err \<Rightarrow> Some (Inl (DescribeRouteTablesError err))
      | Inr output \<Rightarrow>
          (case NextToken output of
             None \<Rightarrow> Some (Inr (routeTables @ RouteTables output))
           | Some t \<Rightarrow>
               describeAllRouteTables ec2 subnetIDs (Some t) (routeTables @ RouteTables output)))"

text \<open>
  The two nested loops that fill \<^verbatim>\<open>subnetRoutes\<close>: an association flagged main ends
  the import with an error; reading the subnet identifier or the table identifier
  through a \<^verbatim>\<open>nil\<close> pointer panics.
\<close>

fun addAssociations ::
  "string option \<Rightarrow> RouteTableAssociation list \<Rightarrow> (string \<rightharpoonup> string)
     \<Rightarrow> panic + (error + (string \<rightharpoonup> string))" where
  "addAssociations rtId [] subnetRoutes = Inr (Inr subnetRoutes)"
| "addAssociations rtId (rta # rtas) subnetRoutes =
     (if rta_Main rta = Some True then Inr (Inl MainRouteTable)
      else (case rta_SubnetId rta of
              None \<Rightarrow> Inl NilPointerDereference
            | Some subnetId \<Rightarrow>
                (case rtId of
                   None \<Rightarrow> Inl NilPointerDereference
                 | Some tableId \<Rightarrow> addAssociations rtId rtas (subnetRoutes(subnetId \<mapsto> tableId)))))"

fun addRouteTables ::
  "RouteTable_ec2 list \<Rightarrow> (string \<rightharpoonup> string) \<Rightarrow> panic + (error + (string \<rightharpoonup> string))" where
  "addRouteTables [] subnetRoutes = Inr (Inr subnetRoutes)"
| "addRouteTables (rt # rts) subnetRoutes =
     (case addAssociations (rt_RouteTableId rt) (rt_Associations rt) subnetRoutes of
        Inr (Inr subnetRoutes') \<Rightarrow> addRouteTables rts subnetRoutes'
      | stop \<Rightarrow> stop)"

definition importRouteTables ::
  "ec2API \<Rightarrow> subnetMap \<Rightarrow> (panic + (error + (string \<rightharpoonup> string))) option" where
  "importRouteTables ec2 subnets =
     (let subnetIDs = map (\<lambda>(name, subnet). ID subnet) subnets in
      case describeAllRouteTables ec2 subnetIDs None [] of
        None \<Rightarrow> None
      | Some (Inl err) \<Rightarrow> Some (Inr (Inl err))
      | Some (Inr routeTables) \<Rightarrow> Some (addRouteTables routeTables Map.empty))"

text \<open>
  \<^verbatim>\<open>makeSubnetResources\<close>: the loop over the subnets, with the resources collected so
  far; \<open>None\<close> for \<^verbatim>\<open>subnetRoutes\<close> is the \<^verbatim>\<open>nil\<close> map, for which no route table
  is looked up.
\<close>

fun makeSubnetResources_loop ::
  "subnetMap \<Rightarrow> (string \<rightharpoonup> string) option \<Rightarrow> SubnetResource list \<Rightarrow> error + SubnetResource list" where
  "makeSubnetResources_loop [] subnetRoutes subnetResources = Inr subnetResources"
| "makeSubnetResources_loop ((name, network) # rest) subnetRoutes subnetResources =
     (let az = AZ network;
          sr = \<lparr>Subnet = NewString (ID network), RouteTable = None, AvailabilityZone = az\<rparr>
      in case subnetRoutes of
           None \<Rightarrow> makeSubnetResources_loop rest subnetRoutes (subnetResources @ [sr])
         | Some routes \<Rightarrow>
             (case routes (ID network) of
                None \<Rightarrow> Inl (NoExplicitRouteTable (ID network))
              | Some rt \<Rightarrow>
                  makeSubnetResources_loop rest subnetRoutes
                    (subnetResources @ [sr\<lparr>RouteTable := Some (NewString rt)\<rparr>])))"

definition makeSubnetResources ::
  "subnetMap \<Rightarrow> (string \<rightharpoonup> string) option \<Rightarrow> error + SubnetResource list" where
  "makeSubnetResources subnets subnetRoutes = makeSubnetResources_loop subnets subnetRoutes []"

text \<open>The second half of \<^verbatim>\<open>importResources\<close>: the public subnets, with no route lookup.\<close>

definition importResources_public :: "IPv4VPCResourceSet \<Rightarrow> error option \<times> IPv4VPCResourceSet" where
  "importResources_public v =
     (case Subnets_Public (Subnets (VPC (clusterConfig v))) of
        None \<Rightarrow> (None, v)
      | Some subnets \<Rightarrow>
          (case makeSubnetResources subnets None of
             Inl err \<Rightarrow> (Some err, v)
           | Inr subnetResources \<Rightarrow>
               (None, v\<lparr>subnetDetails := (subnetDetails v)\<lparr>Public := subnetResources\<rparr>\<rparr>)))"

definition importResources ::
  "ec2API \<Rightarrow> IPv4VPCResourceSet \<Rightarrow> (panic + (error option \<times> IPv4VPCResourceSet)) option" where
  "importResources ec2 v =
     (case Subnets_Private (Subnets (VPC (clusterConfig v))) of
        None \<Rightarrow> Some (Inr (importResources_public v))
      | Some subnets \<Rightarrow>
          (case (if isFullyPrivate v
                 then (case importRouteTables ec2 subnets of
                         None \<Rightarrow> None
                       | Some (Inl p) \<Rightarrow> Some (Inl p)
                       | Some (Inr (Inl err)) \<Rightarrow> Some (Inr (Inl err))
                       | Some (Inr (Inr routes)) \<Rightarrow> Some (Inr (Inr (Some routes))))
                 else Some (Inr (Inr None))) of
             None \<Rightarrow> None
           | Some (Inl p) \<Rightarrow> Some (Inl p)
           | Some (Inr (Inl err)) \<Rightarrow> Some (Inr (Some err, v))
           | Some (Inr (Inr subnetRoutes)) \<Rightarrow>
               (case makeSubnetResources subnets subnetRoutes of
                  Inl err \<Rightarrow> Some (Inr (Some err, v))
                | Inr subnetResources \<Rightarrow>
                    Some (Inr (importResources_public
                      (v\<lparr>subnetDetails := (subnetDetails v)\<lparr>Private := subnetResources\<rparr>\<rparr>))))))"

section \<open>The orchestrator\<close>

definition addResources ::
  "ec2API \<Rightarrow> IPv4VPCResourceSet \<Rightarrow> (panic + (error option \<times> IPv4VPCResourceSet)) option" where
  "addResources ec2 v =
     (let vpc = VPC (clusterConfig v) in
      if VPC_ID vpc \<noteq> [] then
        (case importResources ec2 v of
           None \<Rightarrow> None
         | Some (Inl p) \<Rightarrow> Some (Inl p)
         | Some (Inr (Some err, v')) \<Rightarrow> Some (Inr (Some (ErrorImportingVPCResources err), v'))
         | Some (Inr (None, v')) \<Rightarrow> Some (Inr (None, v')))
      else
        (let v1 = (if IsEnabled (AutoAllocateIPv6 vpc)
                   then v\<lparr>rs := fst (newResource (rs v) ''AutoAllocatedCIDRv6''
                                        (EC2_VPCCidrBlock (vpcID v) GfnTrue))\<rparr>
                   else v)
         in if isFullyPrivate v1 then
              (let v2 = noNAT v1;
                   (v3, private) = addSubnets v2 None SubnetTopologyPrivate (Subnets_Private (Subnets vpc))
               in Some (Inr (None, v3\<lparr>subnetDetails := (subnetDetails v3)\<lparr>Private := private\<rparr>\<rparr>)))
            else
              (let (r1, refIG) = newResource (rs v1) ''InternetGateway'' EC2_InternetGateway;
                   vpcGA = ''VPCGatewayAttachment'';
                   (r2, _) = newResource r1 vpcGA (EC2_VPCGatewayAttachment refIG (vpcID v1));
                   (r3, refPublicRT) = newResource r2 ''PublicRouteTable'' (EC2_RouteTable (vpcID v1));
                   (r4, _) = newResource r3 ''PublicSubnetRoute''
                      (EC2_Route refPublicRT (NewString InternetCIDR) (Some refIG) None [vpcGA]);
                   (v2, public) = addSubnets (v1\<lparr>rs := r4\<rparr>) (Some refPublicRT) SubnetTopologyPublic
                                    (Subnets_Public (Subnets vpc));
                   v3 = v2\<lparr>subnetDetails := (subnetDetails v2)\<lparr>Public := public\<rparr>\<rparr>
               in case addNATGateways v3 of
                    Inl p \<Rightarrow> Some (Inl p)
                  | Inr (Some err, v4) \<Rightarrow> Some (Inr (Some err, v4))
                  | Inr (None, v4) \<Rightarrow>
                      (let (v5, private) = addSubnets v4 None SubnetTopologyPrivate
                                             (Subnets_Private (Subnets vpc))
                       in Some (Inr (None, v5\<lparr>subnetDetails := (subnetDetails v5)\<lparr>Private := private\<rparr>\<rparr>))))))"

section \<open>The declarations of each step, written out\<close>

text \<open>
  The lists below name what one step of the builder declares; the lemmas of the next
  section prove that the functions above declare exactly these, in this order.
\<close>

datatype resourceKind =
    K_VPC | K_VPCCidrBlock | K_InternetGateway | K_VPCGatewayAttachment | K_RouteTable
  | K_Route | K_Subnet | K_SubnetRouteTableAssociation | K_EIP | K_NatGateway
  | K_SubnetCidrBlock

fun kindOf :: "resource \<Rightarrow> resourceKind" where
  "kindOf (EC2_VPC _ _ _) = K_VPC"
| "kindOf (EC2_VPCCidrBlock _ _) = K_VPCCidrBlock"
| "kindOf EC2_InternetGateway = K_InternetGateway"
| "kindOf (EC2_VPCGatewayAttachment _ _) = K_VPCGatewayAttachment"
| "kindOf (EC2_RouteTable _) = K_RouteTable"
| "kindOf (EC2_Route _ _ _ _ _) = K_Route"
| "kindOf (EC2_Subnet _ _ _ _ _) = K_Subnet"
| "kindOf (EC2_SubnetRouteTableAssociation _ _) = K_SubnetRouteTableAssociation"
| "kindOf (EC2_EIP _) = K_EIP"
| "kindOf (EC2_NatGateway _ _) = K_NatGateway"
| "kindOf (EC2_SubnetCidrBlock _ _) = K_SubnetCidrBlock"

text \<open>The declarations of one kind, in the order they were made.\<close>

definition declared :: "resourceKind \<Rightarrow> resourceSet \<Rightarrow> resourceSet" where
  "declared k r = filter (\<lambda>d. kindOf (snd d) = k) r"

text \<open>The declarations a step added to the resource set \<open>r\<close> it started from.\<close>

definition added :: "resourceSet \<Rightarrow> IPv4VPCResourceSet \<Rightarrow> resourceSet" where
  "added r v' = drop (length r) (rs v')"

text \<open>
  A public subnet is a subnet declared for the public role: tagged for external load
  balancers, or set to assign a public address on launch.
\<close>

fun isPublicSubnet :: "resource \<Rightarrow> bool" where
  "isPublicSubnet (EC2_Subnet az cidr vpc tags mapPublic) =
     (mapPublic \<noteq> None \<or> (NewString ''kubernetes.io/role/elb'', NewString ''1'') \<in> set tags)"
| "isPublicSubnet _ = False"

definition haNAT_decls :: "gval \<Rightarrow> string \<Rightarrow> resourceSet" where
  "haNAT_decls vpc az =
     [(''NATIP'' @ aliasOf az, EC2_EIP (NewString ''vpc'')),
      (''NATGateway'' @ aliasOf az,
         EC2_NatGateway (MakeFnGetAttString (''NATIP'' @ aliasOf az) ''AllocationId'')
           (MakeRef (''SubnetPublic'' @ aliasOf az))),
      (''PrivateRouteTable'' @ aliasOf az, EC2_RouteTable vpc),
      (''NATPrivateSubnetRoute'' @ aliasOf az,
         EC2_Route (MakeRef (''PrivateRouteTable'' @ aliasOf az)) (NewString InternetCIDR) None
           (Some (MakeRef (''NATGateway'' @ aliasOf az))) []),
      (''RouteTableAssociationPrivate'' @ aliasOf az,
         EC2_SubnetRouteTableAssociation (MakeRef (''SubnetPrivate'' @ aliasOf az))
           (Some (MakeRef (''PrivateRouteTable'' @ aliasOf az))))]"

definition singleNAT_decls :: "gval \<Rightarrow> gval \<Rightarrow> string \<Rightarrow> resourceSet" where
  "singleNAT_decls vpc refNG az =
     [(''PrivateRouteTable'' @ aliasOf az, EC2_RouteTable vpc),
      (''NATPrivateSubnetRoute'' @ aliasOf az,
         EC2_Route (MakeRef (''PrivateRouteTable'' @ aliasOf az)) (NewString InternetCIDR) None
           (Some refNG) []),
      (''RouteTableAssociationPrivate'' @ aliasOf az,
         EC2_SubnetRouteTableAssociation (MakeRef (''SubnetPrivate'' @ aliasOf az))
           (Some (MakeRef (''PrivateRouteTable'' @ aliasOf az))))]"

definition singleNAT_gateway_decls :: "string \<Rightarrow> resourceSet" where
  "singleNAT_gateway_decls az0 =
     [(''NATIP'', EC2_EIP (NewString ''vpc'')),
      (''NATGateway'',
         EC2_NatGateway (MakeFnGetAttString ''NATIP'' ''AllocationId'')
           (MakeRef (''SubnetPublic'' @ aliasOf az0)))]"

definition noNAT_decls :: "gval \<Rightarrow> string \<Rightarrow> resourceSet" where
  "noNAT_decls vpc az =
     [(''PrivateRouteTable'' @ aliasOf az, EC2_RouteTable vpc),
      (''RouteTableAssociationPrivate'' @ aliasOf az,
         EC2_SubnetRouteTableAssociation (MakeRef (''SubnetPrivate'' @ aliasOf az))
           (Some (MakeRef (''PrivateRouteTable'' @ aliasOf az))))]"

text \<open>The route-table reference a subnet of a role ends with, given the one passed in.\<close>

definition routeTableFor :: "SubnetTopology \<Rightarrow> gval option \<Rightarrow> string \<Rightarrow> gval option" where
  "routeTableFor topology refRT name =
     (case topology of
        SubnetTopologyPrivate \<Rightarrow> Some (MakeRef (''PrivateRouteTable'' @ aliasOf name))
      | SubnetTopologyPublic \<Rightarrow> refRT)"

definition subnetResourceFor ::
  "SubnetTopology \<Rightarrow> gval option \<Rightarrow> string \<times> AZSubnetSpec \<Rightarrow> SubnetResource" where
  "subnetResourceFor topology refRT entry =
     \<lparr>Subnet = MakeRef (''Subnet'' @ topology_string topology @ aliasOf (fst entry)),
      RouteTable = routeTableFor topology refRT (fst entry),
      AvailabilityZone = AZ (snd entry)\<rparr>"

definition subnetCidrBlock_decl ::
  "ClusterConfig \<Rightarrow> SubnetTopology \<Rightarrow> int \<Rightarrow> string \<times> AZSubnetSpec \<Rightarrow> string \<times> resource" where
  "subnetCidrBlock_decl cfg topology i entry =
     (topology_string topology @ aliasOf (fst entry) @ ''CIDRv6'',
      EC2_SubnetCidrBlock
        (MakeRef (''Subnet'' @ topology_string topology @ aliasOf (fst entry)))
        (MakeFnSelect (NewInteger i)
           (getSubnetIPv6CIDRBlock (int (length (AvailabilityZones cfg)) * 2 + 2))))"

definition subnet_decls ::
  "ClusterConfig \<Rightarrow> gval \<Rightarrow> SubnetTopology \<Rightarrow> gval option \<Rightarrow> int \<Rightarrow> string \<times> AZSubnetSpec
     \<Rightarrow> resourceSet" where
  "subnet_decls cfg vpc topology refRT i entry =
     [(''Subnet'' @ topology_string topology @ aliasOf (fst entry),
         EC2_Subnet (NewString (AZ (snd entry))) (NewString (CIDR (snd entry))) vpc
           (case topology of
              SubnetTopologyPrivate \<Rightarrow>
                [(NewString ''kubernetes.io/role/internal-elb'', NewString ''1'')]
            | SubnetTopologyPublic \<Rightarrow>
                [(NewString ''kubernetes.io/role/elb'', NewString ''1'')])
           (case topology of
              SubnetTopologyPrivate \<Rightarrow> None
            | SubnetTopologyPublic \<Rightarrow> Some GfnTrue)),
      (''RouteTableAssociation'' @ topology_string topology @ aliasOf (fst entry),
         EC2_SubnetRouteTableAssociation
           (MakeRef (''Subnet'' @ topology_string topology @ aliasOf (fst entry)))
           (routeTableFor topology refRT (fst entry)))]
     @ (if IsEnabled (AutoAllocateIPv6 (VPC cfg))
        then [subnetCidrBlock_decl cfg topology i entry]
        else [])"

fun subnets_decls ::
  "ClusterConfig \<Rightarrow> gval \<Rightarrow> SubnetTopology \<Rightarrow> gval option \<Rightarrow> int \<Rightarrow> subnetMap
     \<Rightarrow> resourceSet" where
  "subnets_decls cfg vpc topology refRT i [] = []"
| "subnets_decls cfg vpc topology refRT i (entry # entries) =
     subnet_decls cfg vpc topology refRT i entry
     @ subnets_decls cfg vpc topology refRT
         (if IsEnabled (AutoAllocateIPv6 (VPC cfg)) then i + 1 else i) entries"

text \<open>The first index of a role's pass, and the entries of a map that may be \<^verbatim>\<open>nil\<close>.\<close>

definition firstIndex :: "ClusterConfig \<Rightarrow> SubnetTopology \<Rightarrow> int" where
  "firstIndex cfg topology =
     (if IsEnabled (AutoAllocateIPv6 (VPC cfg))
      then (case topology of
              SubnetTopologyPrivate \<Rightarrow> int (length (AvailabilityZones cfg))
            | SubnetTopologyPublic \<Rightarrow> 0)
      else 0)"

definition entriesOf :: "subnetMap option \<Rightarrow> subnetMap" where
  "entriesOf subnets = (case subnets of None \<Rightarrow> [] | Some m \<Rightarrow> m)"

definition autoCIDR_decls :: "ClusterConfig \<Rightarrow> gval \<Rightarrow> resourceSet" where
  "autoCIDR_decls cfg vpc =
     (if IsEnabled (AutoAllocateIPv6 (VPC cfg))
      then [(''AutoAllocatedCIDRv6'', EC2_VPCCidrBlock vpc GfnTrue)] else [])"

definition gateway_decls :: "gval \<Rightarrow> resourceSet" where
  "gateway_decls vpc =
     [(''InternetGateway'', EC2_InternetGateway),
      (''VPCGatewayAttachment'', EC2_VPCGatewayAttachment (MakeRef ''InternetGateway'') vpc),
      (''PublicRouteTable'', EC2_RouteTable vpc),
      (''PublicSubnetRoute'',
         EC2_Route (MakeRef ''PublicRouteTable'') (NewString InternetCIDR)
           (Some (MakeRef ''InternetGateway'')) None [''VPCGatewayAttachment''])]"

definition nat_decls :: "ClusterNAT \<Rightarrow> gval \<Rightarrow> string list \<Rightarrow> resourceSet" where
  "nat_decls mode vpc azs =
     (case mode of
        ClusterHighlyAvailableNAT \<Rightarrow> concat (map (haNAT_decls vpc) azs)
      | ClusterSingleNAT \<Rightarrow>
          (case azs of
             [] \<Rightarrow> []
           | az0 # _ \<Rightarrow> singleNAT_gateway_decls az0
                @ concat (map (singleNAT_decls vpc (MakeRef ''NATGateway'')) azs))
      | ClusterDisableNAT \<Rightarrow> concat (map (noNAT_decls vpc) azs)
      | UnknownNAT s \<Rightarrow> [])"

definition public_decls :: "ClusterConfig \<Rightarrow> gval \<Rightarrow> resourceSet" where
  "public_decls cfg vpc =
     autoCIDR_decls cfg vpc @ gateway_decls vpc
     @ subnets_decls cfg vpc SubnetTopologyPublic (Some (MakeRef ''PublicRouteTable''))
         (firstIndex cfg SubnetTopologyPublic) (entriesOf (Subnets_Public (Subnets (VPC cfg))))"

definition private_decls :: "ClusterConfig \<Rightarrow> gval \<Rightarrow> resourceSet" where
  "private_decls cfg vpc =
     subnets_decls cfg vpc SubnetTopologyPrivate None
       (firstIndex cfg SubnetTopologyPrivate) (entriesOf (Subnets_Private (Subnets (VPC cfg))))"

definition publicSubnetResources :: "ClusterConfig \<Rightarrow> SubnetResource list" where
  "publicSubnetResources cfg =
     map (subnetResourceFor SubnetTopologyPublic (Some (MakeRef ''PublicRouteTable'')))
       (entriesOf (Subnets_Public (Subnets (VPC cfg))))"

definition privateSubnetResources :: "ClusterConfig \<Rightarrow> SubnetResource list" where
  "privateSubnetResources cfg =
     map (subnetResourceFor SubnetTopologyPrivate None)
       (entriesOf (Subnets_Private (Subnets (VPC cfg))))"

section \<open>Example configurations\<close>

text \<open>Concrete inputs, at which the theorems below are instantiated.\<close>

definition zoneSubnet :: "string \<Rightarrow> string \<Rightarrow> string \<Rightarrow> string \<times> AZSubnetSpec" where
  "zoneSubnet name az cidr = (name, \<lparr>ID = [], AZ = az, CIDR = cidr\<rparr>)"

definition newCluster ::
  "ClusterNAT \<Rightarrow> bool \<Rightarrow> bool option \<Rightarrow> string list \<Rightarrow> subnetMap option \<Rightarrow> subnetMap option
     \<Rightarrow> ClusterConfig" where
  "newCluster mode fullyPrivate autoIPv6 zones private public =
     \<lparr>VPC = \<lparr>VPC_ID = [], VPC_CIDR = ''10.0.0.0/16'',
              Subnets = \<lparr>Subnets_Private = private, Subnets_Public = public\<rparr>,
              NAT_Gateway = mode, AutoAllocateIPv6 = autoIPv6\<rparr>,
      PrivateCluster_Enabled = fullyPrivate,
      AvailabilityZones = zones\<rparr>"

definition emptyDirectory :: ec2API where
  "emptyDirectory subnetIDs nextToken = Inr \<lparr>RouteTables = [], NextToken = None\<rparr>"

text \<open>The state a build returned, when it succeeded; and the outcome of a build.\<close>

definition returned ::
  "(panic + (error option \<times> IPv4VPCResourceSet)) option \<Rightarrow> IPv4VPCResourceSet option" where
  "returned out = (case out of Some (Inr (None, v')) \<Rightarrow> Some v' | _ \<Rightarrow> None)"

datatype outcome = Succeeded | Failed error | Panicked panic | Diverged

definition outcomeOf :: "(panic + (error option \<times> IPv4VPCResourceSet)) option \<Rightarrow> outcome" where
  "outcomeOf out =
     (case out of
        None \<Rightarrow> Diverged
      | Some (Inl p) \<Rightarrow> Panicked p
      | Some (Inr (None, v')) \<Rightarrow> Succeeded
      | Some (Inr (Some err, v')) \<Rightarrow> Failed err)"

definition twoZoneCluster :: "ClusterNAT \<Rightarrow> bool \<Rightarrow> bool option \<Rightarrow> ClusterConfig" where
  "twoZoneCluster mode fullyPrivate autoIPv6 =
     newCluster mode fullyPrivate autoIPv6 [''us-east-1a'', ''us-east-1b'']
       (Some [zoneSubnet ''us-east-1a'' ''us-east-1a'' ''10.0.64.0/19'',
              zoneSubnet ''us-east-1b'' ''us-east-1b'' ''10.0.96.0/19''])
       (Some [zoneSubnet ''us-east-1a'' ''us-east-1a'' ''10.0.0.0/19'',
              zoneSubnet ''us-east-1b'' ''us-east-1b'' ''10.0.32.0/19''])"

text \<open>
  What a build of a new network declares when it succeeds: the network, then the
  fully-private resources or the gatewayed ones.
\<close>

definition build_decls :: "ClusterConfig \<Rightarrow> resourceSet" where
  "build_decls cfg =
     [(''VPC'', EC2_VPC (NewString (VPC_CIDR (VPC cfg))) GfnTrue GfnTrue)]
     @ (if PrivateCluster_Enabled cfg
        then autoCIDR_decls cfg (MakeRef ''VPC'')
             @ concat (map (noNAT_decls (MakeRef ''VPC'')) (AvailabilityZones cfg))
             @ private_decls cfg (MakeRef ''VPC'')
        else public_decls cfg (MakeRef ''VPC'')
             @ nat_decls (NAT_Gateway (VPC cfg)) (MakeRef ''VPC'') (AvailabilityZones cfg)
             @ private_decls cfg (MakeRef ''VPC''))"




text \<open>A cluster on one zone whose private subnet is keyed by a name that is not its zone.\<close>

definition namedSubnetCluster :: ClusterConfig where
  "namedSubnetCluster =
     newCluster ClusterHighlyAvailableNAT False None [''us-east-1a'']
       (Some [zoneSubnet ''private-one'' ''us-east-1a'' ''10.0.64.0/19''])
       (Some [zoneSubnet ''us-east-1a'' ''us-east-1a'' ''10.0.0.0/19''])"

section \<open>The remote directory, for the statements about the import\<close>

text \<open>
  The pagination of \<^verbatim>\<open>DescribeRouteTables\<close> ends from a token when a call fails, or a
  page carries no continuation token, or it ends from the token of the page.
\<close>

inductive pagination_ends :: "ec2API \<Rightarrow> string list \<Rightarrow> string option \<Rightarrow> bool"
  for ec2 :: ec2API and subnetIDs :: "string list" where
  call_fails:
    "ec2 subnetIDs nextToken = Inl err \<Longrightarrow> pagination_ends ec2 subnetIDs nextToken"
| last_page:
    "ec2 subnetIDs nextToken = Inr page \<Longrightarrow> NextToken page = None
       \<Longrightarrow> pagination_ends ec2 subnetIDs nextToken"
| next_page:
    "ec2 subnetIDs nextToken = Inr page \<Longrightarrow> NextToken page = Some t
       \<Longrightarrow> pagination_ends ec2 subnetIDs (Some t)
       \<Longrightarrow> pagination_ends ec2 subnetIDs nextToken"

text \<open>The identifiers of the subnets, as \<^verbatim>\<open>importRouteTables\<close> collects them for the filter.\<close>

definition subnetIDsOf :: "subnetMap \<Rightarrow> string list" where
  "subnetIDsOf subnets = map (\<lambda>(name, subnet). ID subnet) subnets"

text \<open>
  The discovered tables and associations: whether any association is flagged main; the
  associations recorded for a subnet identifier, with their tables, in the order
  discovered; and the tables that carry the identifiers the builder reads.
\<close>

definition hasMainAssociation :: "RouteTable_ec2 list \<Rightarrow> bool" where
  "hasMainAssociation tables =
     (\<exists>rt \<in> set tables. \<exists>rta \<in> set (rt_Associations rt). rta_Main rta = Some True)"

definition associationsOf ::
  "RouteTable_ec2 list \<Rightarrow> string \<Rightarrow> (RouteTable_ec2 \<times> RouteTableAssociation) list" where
  "associationsOf tables subnetId =
     concat (map (\<lambda>rt. map (\<lambda>rta. (rt, rta))
                          (filter (\<lambda>rta. rta_SubnetId rta = Some subnetId) (rt_Associations rt)))
               tables)"

definition wellFormed :: "RouteTable_ec2 list \<Rightarrow> bool" where
  "wellFormed tables =
     (\<forall>rt \<in> set tables.
        rt_RouteTableId rt \<noteq> None \<and>
        (\<forall>rta \<in> set (rt_Associations rt). rta_Main rta \<noteq> Some True \<longrightarrow> rta_SubnetId rta \<noteq> None))"

text \<open>An existing network: its identifier, its subnets with their identifiers.\<close>

definition importedSubnet :: "string \<Rightarrow> string \<Rightarrow> string \<Rightarrow> string \<times> AZSubnetSpec" where
  "importedSubnet name subnetId az = (name, \<lparr>ID = subnetId, AZ = az, CIDR = []\<rparr>)"

definition existingCluster :: "bool \<Rightarrow> subnetMap option \<Rightarrow> subnetMap option \<Rightarrow> ClusterConfig" where
  "existingCluster fullyPrivate private public =
     \<lparr>VPC = \<lparr>VPC_ID = ''vpc-1'', VPC_CIDR = ''10.0.0.0/16'',
              Subnets = \<lparr>Subnets_Private = private, Subnets_Public = public\<rparr>,
              NAT_Gateway = ClusterDisableNAT, AutoAllocateIPv6 = None\<rparr>,
      PrivateCluster_Enabled = fullyPrivate,
      AvailabilityZones = [''us-east-1a'', ''us-east-1b'']\<rparr>"

definition twoSubnets :: subnetMap where
  "twoSubnets =
     [importedSubnet ''us-east-1a'' ''subnet-a'' ''us-east-1a'',
      importedSubnet ''us-east-1b'' ''subnet-b'' ''us-east-1b'']"

text \<open>
  A directory that answers in two pages, one table per page, each table associated with
  one of the two subnets; and a directory whose one table is the main route table, with
  the second subnet associated to it.
\<close>

definition pagedDirectory :: ec2API where
  "pagedDirectory subnetIDs nextToken =
     (case nextToken of
        None \<Rightarrow>
          Inr \<lparr>RouteTables =
                 [\<lparr>rt_RouteTableId = Some ''rtb-a'',
                   rt_Associations = [\<lparr>rta_Main = Some False, rta_SubnetId = Some ''subnet-a''\<rparr>]\<rparr>],
               NextToken = Some ''page-2''\<rparr>
      | Some t \<Rightarrow>
          (if t = ''page-2''
           then Inr \<lparr>RouteTables =
                       [\<lparr>rt_RouteTableId = Some ''rtb-b'',
                         rt_Associations = [\<lparr>rta_Main = None, rta_SubnetId = Some ''subnet-b''\<rparr>]\<rparr>],
                     NextToken = None\<rparr>
           else Inl ''InvalidNextToken''))"

definition mainTableDirectory :: ec2API where
  "mainTableDirectory subnetIDs nextToken =
     Inr \<lparr>RouteTables =
            [\<lparr>rt_RouteTableId = Some ''rtb-main'',
              rt_Associations = [\<lparr>rta_Main = Some True, rta_SubnetId = None\<rparr>,
                                 \<lparr>rta_Main = Some False, rta_SubnetId = Some ''subnet-b''\<rparr>]\<rparr>],
          NextToken = None\<rparr>"

text \<open>The tables the two example directories answer with.\<close>

definition pagedTables :: "RouteTable_ec2 list" where
  "pagedTables =
     [\<lparr>rt_RouteTableId = Some ''rtb-a'',
       rt_Associations = [\<lparr>rta_Main = Some False, rta_SubnetId = Some ''subnet-a''\<rparr>]\<rparr>,
      \<lparr>rt_RouteTableId = Some ''rtb-b'',
       rt_Associations = [\<lparr>rta_Main = None, rta_SubnetId = Some ''subnet-b''\<rparr>]\<rparr>]"

definition mainTables :: "RouteTable_ec2 list" where
  "mainTables =
     [\<lparr>rt_RouteTableId = Some ''rtb-main'',
       rt_Associations = [\<lparr>rta_Main = Some True, rta_SubnetId = None\<rparr>,
                          \<lparr>rta_Main = Some False, rta_SubnetId = Some ''subnet-b''\<rparr>]\<rparr>]"


section \<open>Closed forms of the loops\<close>

lemma Split_not_Nil: "Split s c \<noteq> []"
  by (induction s) (auto split: list.splits)

text \<open>Splitting at a character and joining with nothing removes that character.\<close>

lemma Join_Split: "Join (Split s c) [] = filter (\<lambda>x. x \<noteq> c) s"
proof (induction s)
  case Nil
  then show ?case by simp
next
  case (Cons a s)
  obtain p ps where sp: "Split s c = p # ps"
    using Split_not_Nil [of s c] by (cases "Split s c") auto
  show ?case
  proof (cases "a = c")
    case True
    with Cons sp show ?thesis by (cases ps) auto
  next
    case False
    with Cons sp show ?thesis by (cases ps) auto
  qed
qed

lemma aliasOf_eq: "aliasOf name = map upper_char (filter (\<lambda>c. c \<noteq> CHR ''-'') name)"
  by (simp add: aliasOf_def ToUpper_def Join_Split)

lemma foldl_append_decls:
  assumes "\<And>r x. f r x = r @ g x"
  shows "foldl f r xs = r @ concat (map g xs)"
  using assms by (induction xs arbitrary: r) simp_all

lemma haNAT_zone_eq: "haNAT_zone vpc r az = r @ haNAT_decls vpc az"
  by (simp add: haNAT_zone_def haNAT_decls_def newResource_def formatAZ_def Let_def)

lemma singleNAT_zone_eq: "singleNAT_zone vpc refNG r az = r @ singleNAT_decls vpc refNG az"
  by (simp add: singleNAT_zone_def singleNAT_decls_def newResource_def aliasOf_def Let_def)

lemma noNAT_zone_eq: "noNAT_zone vpc r az = r @ noNAT_decls vpc az"
  by (simp add: noNAT_zone_def noNAT_decls_def newResource_def aliasOf_def Let_def)

lemma haNAT_eq:
  "haNAT v = v\<lparr>rs := rs v @ concat (map (haNAT_decls (vpcID v)) (AvailabilityZones (clusterConfig v)))\<rparr>"
  by (simp add: haNAT_def foldl_append_decls [of "haNAT_zone (vpcID v)", OF haNAT_zone_eq])

lemma noNAT_eq:
  "noNAT v = v\<lparr>rs := rs v @ concat (map (noNAT_decls (vpcID v)) (AvailabilityZones (clusterConfig v)))\<rparr>"
  by (simp add: noNAT_def foldl_append_decls [of "noNAT_zone (vpcID v)", OF noNAT_zone_eq])

lemma singleNAT_eq:
  "singleNAT v =
     (case AvailabilityZones (clusterConfig v) of
        [] \<Rightarrow> Inl IndexOutOfRange
      | az0 # azs \<Rightarrow>
          Inr (v\<lparr>rs := rs v @ singleNAT_gateway_decls az0
                 @ concat (map (singleNAT_decls (vpcID v) (MakeRef ''NATGateway'')) (az0 # azs))\<rparr>))"
  by (simp add: singleNAT_def singleNAT_gateway_decls_def newResource_def aliasOf_def Let_def
      foldl_append_decls [of "singleNAT_zone (vpcID v) (MakeRef ''NATGateway'')", OF singleNAT_zone_eq]
      singleNAT_zone_eq split: list.splits)

lemma addSubnets_subnet_eq:
  "addSubnets_subnet v topology (r, refRT, i, out) entry =
     (r @ subnet_decls (clusterConfig v) (vpcID v) topology refRT i entry,
      routeTableFor topology refRT (fst entry),
      (if IsEnabled (AutoAllocateIPv6 (VPC (clusterConfig v))) then i + 1 else i),
      out @ [subnetResourceFor topology refRT entry])"
  by (cases entry; cases topology)
    (simp_all add: addSubnets_subnet_def subnet_decls_def subnetResourceFor_def routeTableFor_def
      subnetCidrBlock_decl_def newResource_def aliasOf_def Let_def)

lemma routeTableFor_idem:
  "routeTableFor topology (routeTableFor topology refRT name) name' = routeTableFor topology refRT name'"
  by (cases topology) (simp_all add: routeTableFor_def)

lemma subnet_decls_rt:
  "subnet_decls cfg vpc topology (routeTableFor topology refRT name) i entry =
   subnet_decls cfg vpc topology refRT i entry"
  by (simp add: subnet_decls_def routeTableFor_idem)

lemma subnets_decls_rt:
  "subnets_decls cfg vpc topology (routeTableFor topology refRT name) i entries =
   subnets_decls cfg vpc topology refRT i entries"
  by (induction entries arbitrary: i) (simp_all add: subnet_decls_rt)

lemma subnetResourceFor_rt:
  "subnetResourceFor topology (routeTableFor topology refRT name) entry =
   subnetResourceFor topology refRT entry"
  by (simp add: subnetResourceFor_def routeTableFor_idem)

lemma addSubnets_foldl:
  "\<exists>refRT'. foldl (addSubnets_subnet v topology) (r, refRT, i, out) entries =
     (r @ subnets_decls (clusterConfig v) (vpcID v) topology refRT i entries, refRT',
      (if IsEnabled (AutoAllocateIPv6 (VPC (clusterConfig v))) then i + int (length entries) else i),
      out @ map (subnetResourceFor topology refRT) entries)"
proof (induction entries arbitrary: r refRT i out)
  case Nil
  then show ?case by simp
next
  case (Cons entry entries)
  show ?case
    using Cons [of "r @ subnet_decls (clusterConfig v) (vpcID v) topology refRT i entry"
        "routeTableFor topology refRT (fst entry)"
        "if IsEnabled (AutoAllocateIPv6 (VPC (clusterConfig v))) then i + 1 else i"
        "out @ [subnetResourceFor topology refRT entry]"]
    by (auto simp add: addSubnets_subnet_eq subnets_decls_rt subnetResourceFor_rt)
qed

lemma addSubnets_eq:
  "addSubnets v refRT topology subnets =
     (v\<lparr>rs := rs v @ subnets_decls (clusterConfig v) (vpcID v) topology refRT
                       (firstIndex (clusterConfig v) topology) (entriesOf subnets)\<rparr>,
      map (subnetResourceFor topology refRT) (entriesOf subnets))"
proof -
  let ?i = "firstIndex (clusterConfig v) topology"
  obtain refRT' where
    "foldl (addSubnets_subnet v topology) (rs v, refRT, ?i, []) (entriesOf subnets) =
     (rs v @ subnets_decls (clusterConfig v) (vpcID v) topology refRT ?i (entriesOf subnets), refRT',
      (if IsEnabled (AutoAllocateIPv6 (VPC (clusterConfig v)))
       then ?i + int (length (entriesOf subnets)) else ?i),
      [] @ map (subnetResourceFor topology refRT) (entriesOf subnets))"
    using addSubnets_foldl [of v topology "rs v" refRT ?i "[]" "entriesOf subnets"]
    by blast
  then show ?thesis
    by (simp add: addSubnets_def firstIndex_def entriesOf_def Let_def)
qed

lemma addNATGateways_eq:
  "addNATGateways v =
     (case NAT_Gateway (VPC (clusterConfig v)) of
        UnknownNAT s \<Rightarrow> Inr (Some (InvalidNATMode s), v)
      | ClusterSingleNAT \<Rightarrow>
          (if AvailabilityZones (clusterConfig v) = [] then Inl IndexOutOfRange
           else Inr (None, v\<lparr>rs := rs v @ nat_decls ClusterSingleNAT (vpcID v)
                                   (AvailabilityZones (clusterConfig v))\<rparr>))
      | mode \<Rightarrow> Inr (None, v\<lparr>rs := rs v @ nat_decls mode (vpcID v)
                                   (AvailabilityZones (clusterConfig v))\<rparr>))"
  by (simp add: addNATGateways_def nat_decls_def haNAT_eq noNAT_eq singleNAT_eq
      split: ClusterNAT.splits list.splits)

lemma addResources_fullyPrivate:
  assumes "VPC_ID (VPC (clusterConfig v)) = []" and "isFullyPrivate v"
  shows "addResources ec2 v =
     Some (Inr (None,
       v\<lparr>rs := rs v @ autoCIDR_decls (clusterConfig v) (vpcID v)
               @ concat (map (noNAT_decls (vpcID v)) (AvailabilityZones (clusterConfig v)))
               @ private_decls (clusterConfig v) (vpcID v),
         subnetDetails := (subnetDetails v)\<lparr>Private := privateSubnetResources (clusterConfig v)\<rparr>\<rparr>))"
  using assms
  by (simp add: addResources_def Let_def isFullyPrivate_def newResource_def noNAT_eq addSubnets_eq
      autoCIDR_decls_def private_decls_def privateSubnetResources_def)

lemma addResources_gatewayed:
  assumes "VPC_ID (VPC (clusterConfig v)) = []" and "\<not> isFullyPrivate v"
  shows "addResources ec2 v =
     (case NAT_Gateway (VPC (clusterConfig v)) of
        UnknownNAT s \<Rightarrow>
          Some (Inr (Some (InvalidNATMode s),
            v\<lparr>rs := rs v @ public_decls (clusterConfig v) (vpcID v),
              subnetDetails := (subnetDetails v)\<lparr>Public := publicSubnetResources (clusterConfig v)\<rparr>\<rparr>))
      | mode \<Rightarrow>
          (if mode = ClusterSingleNAT \<and> AvailabilityZones (clusterConfig v) = []
           then Some (Inl IndexOutOfRange)
           else Some (Inr (None,
             v\<lparr>rs := rs v @ public_decls (clusterConfig v) (vpcID v)
                     @ nat_decls mode (vpcID v) (AvailabilityZones (clusterConfig v))
                     @ private_decls (clusterConfig v) (vpcID v),
               subnetDetails := (subnetDetails v)
                 \<lparr>Public := publicSubnetResources (clusterConfig v),
                  Private := privateSubnetResources (clusterConfig v)\<rparr>\<rparr>))))"
  using assms
  by (cases "NAT_Gateway (VPC (clusterConfig v))")
    (simp_all add: addResources_def Let_def isFullyPrivate_def newResource_def addSubnets_eq
      addNATGateways_eq autoCIDR_decls_def public_decls_def private_decls_def gateway_decls_def
      publicSubnetResources_def privateSubnetResources_def)

section \<open>Declarations by kind\<close>

lemma declared_append: "declared k (xs @ ys) = declared k xs @ declared k ys"
  by (simp add: declared_def)

lemma declared_Nil: "declared k [] = []"
  by (simp add: declared_def)

lemma nat_decls_Single:
  "azs \<noteq> [] \<Longrightarrow>
   nat_decls ClusterSingleNAT vpc azs =
     singleNAT_gateway_decls (hd azs) @ concat (map (singleNAT_decls vpc (MakeRef ''NATGateway'')) azs)"
  by (cases azs) (simp_all add: nat_decls_def)

lemmas declared_decls =
  declared_def filter_concat comp_def haNAT_decls_def singleNAT_decls_def noNAT_decls_def
  singleNAT_gateway_decls_def gateway_decls_def autoCIDR_decls_def

lemma declared_subnets_decls_other:
  assumes "k \<noteq> K_Subnet" and "k \<noteq> K_SubnetRouteTableAssociation" and "k \<noteq> K_SubnetCidrBlock"
  shows "declared k (subnets_decls cfg vpc topology refRT i entries) = []"
  using assms
  by (induction entries arbitrary: i)
    (simp_all add: declared_def subnet_decls_def subnetCidrBlock_decl_def)

lemma NewIPv4VPCResourceSet_new:
  "VPC_ID (VPC cfg) = [] \<Longrightarrow>
   NewIPv4VPCResourceSet r cfg =
     \<lparr>rs = r @ [(''VPC'', EC2_VPC (NewString (VPC_CIDR (VPC cfg))) GfnTrue GfnTrue)],
      clusterConfig = cfg, vpcID = MakeRef ''VPC'',
      subnetDetails = \<lparr>Private = [], Public = []\<rparr>\<rparr>"
  by (simp add: NewIPv4VPCResourceSet_def newResource_def)

lemma declared_RouteTable_nat_decls:
  assumes "mode = ClusterSingleNAT \<longrightarrow> azs \<noteq> []"
  shows "declared K_RouteTable (nat_decls mode vpc azs) =
     (case mode of UnknownNAT s \<Rightarrow> []
      | _ \<Rightarrow> map (\<lambda>az. (''PrivateRouteTable'' @ aliasOf az, EC2_RouteTable vpc)) azs)"
proof (cases mode)
  case ClusterSingleNAT
  with assms show ?thesis by (simp add: nat_decls_Single) (simp add: declared_decls)
qed (simp_all add: nat_decls_def declared_decls)

text \<open>
  C10. The Single-NAT strategy reads the first zone without a guard: on an empty zone
  list it panics with an index out of range (it does not return an error), and so does
  the strategy selection in Single mode; on a non-empty list it returns. The
  HighlyAvailable and Disabled strategies accept the empty list and declare nothing.
\<close>

theorem singleNAT_needs_a_zone:
  "(AvailabilityZones (clusterConfig v) = [] \<longrightarrow>
      singleNAT v = Inl IndexOutOfRange \<and> haNAT v = v \<and> noNAT v = v \<and>
      (NAT_Gateway (VPC (clusterConfig v)) = ClusterSingleNAT \<longrightarrow>
         addNATGateways v = Inl IndexOutOfRange)) \<and>
   (AvailabilityZones (clusterConfig v) \<noteq> [] \<longrightarrow> (\<exists>v'. singleNAT v = Inr v'))"
  by (cases "AvailabilityZones (clusterConfig v)")
    (simp_all add: singleNAT_eq haNAT_eq noNAT_eq addNATGateways_eq)

theorem singleNAT_needs_a_zone_witness:
  "singleNAT (NewIPv4VPCResourceSet [] (newCluster ClusterSingleNAT False None [] None None))
     = Inl IndexOutOfRange \<and>
   haNAT (NewIPv4VPCResourceSet [] (newCluster ClusterSingleNAT False None [] None None))
     = NewIPv4VPCResourceSet [] (newCluster ClusterSingleNAT False None [] None None) \<and>
   noNAT (NewIPv4VPCResourceSet [] (newCluster ClusterSingleNAT False None [] None None))
     = NewIPv4VPCResourceSet [] (newCluster ClusterSingleNAT False None [] None None) \<and>
   addNATGateways (NewIPv4VPCResourceSet [] (newCluster ClusterSingleNAT False None [] None None))
     = Inl IndexOutOfRange \<and>
   (\<exists>v'. singleNAT (NewIPv4VPCResourceSet []
           (newCluster ClusterSingleNAT False None [''us-east-1a''] None None)) = Inr v')"
  using
    singleNAT_needs_a_zone
      [of "NewIPv4VPCResourceSet [] (newCluster ClusterSingleNAT False None [] None None)"]
    singleNAT_needs_a_zone
      [of "NewIPv4VPCResourceSet [] (newCluster ClusterSingleNAT False None [''us-east-1a''] None None)"]
  by (simp add: NewIPv4VPCResourceSet_def newCluster_def newResource_def)

lemma declared_Cons:
  "declared k (d # ds) = (if kindOf (snd d) = k then d # declared k ds else declared k ds)"
  by (simp add: declared_def)

lemma aliasOf_zone_a: "aliasOf ''us-east-1a'' = ''USEAST1A''"
  by code_simp

lemma aliasOf_zone_b: "aliasOf ''us-east-1b'' = ''USEAST1B''"
  by code_simp






lemma twoZoneCluster_simps:
  "VPC_ID (VPC (twoZoneCluster mode fp auto)) = []"
  "PrivateCluster_Enabled (twoZoneCluster mode fp auto) = fp"
  "NAT_Gateway (VPC (twoZoneCluster mode fp auto)) = mode"
  "AutoAllocateIPv6 (VPC (twoZoneCluster mode fp auto)) = auto"
  "AvailabilityZones (twoZoneCluster mode fp auto) = [''us-east-1a'', ''us-east-1b'']"
  "entriesOf (Subnets_Private (Subnets (VPC (twoZoneCluster mode fp auto)))) =
     [(''us-east-1a'', \<lparr>ID = [], AZ = ''us-east-1a'', CIDR = ''10.0.64.0/19''\<rparr>),
      (''us-east-1b'', \<lparr>ID = [], AZ = ''us-east-1b'', CIDR = ''10.0.96.0/19''\<rparr>)]"
  "entriesOf (Subnets_Public (Subnets (VPC (twoZoneCluster mode fp auto)))) =
     [(''us-east-1a'', \<lparr>ID = [], AZ = ''us-east-1a'', CIDR = ''10.0.0.0/19''\<rparr>),
      (''us-east-1b'', \<lparr>ID = [], AZ = ''us-east-1b'', CIDR = ''10.0.32.0/19''\<rparr>)]"
  by (simp_all add: twoZoneCluster_def newCluster_def zoneSubnet_def entriesOf_def)



section \<open>The build of a new network\<close>

lemma build_new:
  assumes "VPC_ID (VPC cfg) = []"
  shows "addResources ec2 (NewIPv4VPCResourceSet r cfg) =
     (if PrivateCluster_Enabled cfg
      then Some (Inr (None,
             \<lparr>rs = r @ build_decls cfg, clusterConfig = cfg, vpcID = MakeRef ''VPC'',
              subnetDetails = \<lparr>Private = privateSubnetResources cfg, Public = []\<rparr>\<rparr>))
      else (case NAT_Gateway (VPC cfg) of
              UnknownNAT s \<Rightarrow>
                Some (Inr (Some (InvalidNATMode s),
                  \<lparr>rs = r @ [(''VPC'', EC2_VPC (NewString (VPC_CIDR (VPC cfg))) GfnTrue GfnTrue)]
                          @ public_decls cfg (MakeRef ''VPC''),
                   clusterConfig = cfg, vpcID = MakeRef ''VPC'',
                   subnetDetails = \<lparr>Private = [], Public = publicSubnetResources cfg\<rparr>\<rparr>))
            | mode \<Rightarrow>
                (if mode = ClusterSingleNAT \<and> AvailabilityZones cfg = []
                 then Some (Inl IndexOutOfRange)
                 else Some (Inr (None,
                   \<lparr>rs = r @ build_decls cfg, clusterConfig = cfg, vpcID = MakeRef ''VPC'',
                    subnetDetails = \<lparr>Private = privateSubnetResources cfg,
                                     Public = publicSubnetResources cfg\<rparr>\<rparr>)))))"
proof (cases "PrivateCluster_Enabled cfg")
  case True
  with assms show ?thesis
    by (simp add: NewIPv4VPCResourceSet_new addResources_fullyPrivate isFullyPrivate_def build_decls_def)
next
  case False
  with assms show ?thesis
    by (cases "NAT_Gateway (VPC cfg)")
      (simp_all add: NewIPv4VPCResourceSet_new addResources_gatewayed isFullyPrivate_def build_decls_def)
qed

lemma build_new_succeeds:
  assumes "VPC_ID (VPC cfg) = []"
    and "addResources ec2 (NewIPv4VPCResourceSet r cfg) = Some (Inr (None, v'))"
  shows "added r v' = build_decls cfg"
    and "\<not> PrivateCluster_Enabled cfg \<Longrightarrow> NAT_Gateway (VPC cfg) = ClusterSingleNAT
           \<Longrightarrow> AvailabilityZones cfg \<noteq> []"
    and "\<not> PrivateCluster_Enabled cfg \<Longrightarrow> NAT_Gateway (VPC cfg) \<noteq> UnknownNAT s"
  using assms(2) unfolding build_new [OF assms(1)]
  by (auto simp add: added_def split: if_splits ClusterNAT.splits)

lemma route_tables_of_build:
  assumes "VPC_ID (VPC cfg) = []"
    and "addResources ec2 (NewIPv4VPCResourceSet r cfg) = Some (Inr (None, v'))"
  shows "declared K_RouteTable (added r v') =
     (if PrivateCluster_Enabled cfg then []
      else [(''PublicRouteTable'', EC2_RouteTable (MakeRef ''VPC''))])
     @ map (\<lambda>az. (''PrivateRouteTable'' @ aliasOf az, EC2_RouteTable (MakeRef ''VPC'')))
         (AvailabilityZones cfg)"
proof (cases "PrivateCluster_Enabled cfg")
  case True
  then show ?thesis
    unfolding build_new_succeeds(1) [OF assms]
    by (simp add: build_decls_def declared_append declared_Cons declared_Nil private_decls_def
        declared_subnets_decls_other)
      (simp add: declared_decls)
next
  case False
  have single: "NAT_Gateway (VPC cfg) = ClusterSingleNAT \<longrightarrow> AvailabilityZones cfg \<noteq> []"
    using build_new_succeeds(2) [OF assms False] by blast
  have known: "\<And>s. NAT_Gateway (VPC cfg) \<noteq> UnknownNAT s"
    using build_new_succeeds(3) [OF assms False] by blast
  have nat: "declared K_RouteTable
               (nat_decls (NAT_Gateway (VPC cfg)) (MakeRef ''VPC'') (AvailabilityZones cfg)) =
             map (\<lambda>az. (''PrivateRouteTable'' @ aliasOf az, EC2_RouteTable (MakeRef ''VPC'')))
               (AvailabilityZones cfg)"
    using declared_RouteTable_nat_decls [OF single, of "MakeRef ''VPC''"] known
    by (cases "NAT_Gateway (VPC cfg)") auto
  from False show ?thesis
    unfolding build_new_succeeds(1) [OF assms]
    by (simp add: build_decls_def declared_append declared_Cons declared_Nil private_decls_def
        public_decls_def declared_subnets_decls_other nat)
      (simp add: declared_decls)
qed

text \<open>
  C5 (as amended). In every successful build of a new network the private route tables
  are declared one per availability zone, \<open>PrivateRouteTable<alias>\<close> for each entry of the
  zone list in order, whatever the strategy: HighlyAvailable, Single, Disabled, or the
  fully-private build. A build with gateways declares the one public route table before
  them. Single mode shares the NAT gateway, not the route table.
\<close>

theorem private_route_table_per_zone:
  assumes "VPC_ID (VPC cfg) = []"
    and "addResources ec2 (NewIPv4VPCResourceSet r cfg) = Some (Inr (None, v'))"
  shows "declared K_RouteTable (added r v') =
     (if PrivateCluster_Enabled cfg then []
      else [(''PublicRouteTable'', EC2_RouteTable (MakeRef ''VPC''))])
     @ map (\<lambda>az. (''PrivateRouteTable'' @ aliasOf az, EC2_RouteTable (MakeRef ''VPC'')))
         (AvailabilityZones cfg)"
  using route_tables_of_build [OF assms] .

theorem private_route_table_per_zone_witness:
  "VPC_ID (VPC (twoZoneCluster ClusterSingleNAT False None)) = [] \<and>
   (\<exists>v'. addResources emptyDirectory
            (NewIPv4VPCResourceSet [] (twoZoneCluster ClusterSingleNAT False None))
          = Some (Inr (None, v')) \<and>
      declared K_RouteTable (added [] v') =
        [(''PublicRouteTable'', EC2_RouteTable (MakeRef ''VPC'')),
         (''PrivateRouteTableUSEAST1A'', EC2_RouteTable (MakeRef ''VPC'')),
         (''PrivateRouteTableUSEAST1B'', EC2_RouteTable (MakeRef ''VPC''))])"
proof -
  let ?cfg = "twoZoneCluster ClusterSingleNAT False None"
  have h: "VPC_ID (VPC ?cfg) = []"
    by (simp add: twoZoneCluster_simps)
  obtain v' where run:
    "addResources emptyDirectory (NewIPv4VPCResourceSet [] ?cfg) = Some (Inr (None, v'))"
    unfolding build_new [OF h] by (simp add: twoZoneCluster_simps)
  from private_route_table_per_zone [OF h run]
  have "declared K_RouteTable (added [] v') =
        [(''PublicRouteTable'', EC2_RouteTable (MakeRef ''VPC'')),
         (''PrivateRouteTableUSEAST1A'', EC2_RouteTable (MakeRef ''VPC'')),
         (''PrivateRouteTableUSEAST1B'', EC2_RouteTable (MakeRef ''VPC''))]"
    by (simp add: twoZoneCluster_simps aliasOf_zone_a aliasOf_zone_b)
  with h run show ?thesis by blast
qed

text \<open>
  C5 as stated fails: a Single-mode build on two zones declares two private route
  tables, one per zone, not exactly one shared table.
\<close>

theorem single_mode_two_private_route_tables:
  "map_option (\<lambda>v'. map fst (declared K_RouteTable (added [] v')))
     (returned (addResources emptyDirectory
        (NewIPv4VPCResourceSet [] (twoZoneCluster ClusterSingleNAT False None))))
   = Some [''PublicRouteTable'', ''PrivateRouteTableUSEAST1A'', ''PrivateRouteTableUSEAST1B'']"
  by code_simp

lemma private_subnet_decls_kinds:
  assumes "d \<in> set (subnet_decls cfg vpc SubnetTopologyPrivate refRT i entry)"
  shows "(kindOf (snd d) = K_Subnet \<and> \<not> isPublicSubnet (snd d)) \<or>
   kindOf (snd d) = K_SubnetRouteTableAssociation \<or>
   (IsEnabled (AutoAllocateIPv6 (VPC cfg)) \<and> kindOf (snd d) = K_SubnetCidrBlock)"
proof (cases "IsEnabled (AutoAllocateIPv6 (VPC cfg))")
  case True
  with assms show ?thesis
    by (simp add: subnet_decls_def subnetCidrBlock_decl_def getSubnetIPv6CIDRBlock_def) fastforce
next
  case False
  with assms show ?thesis
    by (simp add: subnet_decls_def) fastforce
qed

lemma private_subnets_decls_kinds:
  "d \<in> set (subnets_decls cfg vpc SubnetTopologyPrivate refRT i entries) \<Longrightarrow>
   (kindOf (snd d) = K_Subnet \<and> \<not> isPublicSubnet (snd d)) \<or>
   kindOf (snd d) = K_SubnetRouteTableAssociation \<or>
   (IsEnabled (AutoAllocateIPv6 (VPC cfg)) \<and> kindOf (snd d) = K_SubnetCidrBlock)"
proof (induction entries arbitrary: i)
  case Nil
  then show ?case by simp
next
  case (Cons entry entries)
  from Cons.prems have
    "d \<in> set (subnet_decls cfg vpc SubnetTopologyPrivate refRT i entry) \<or>
     d \<in> set (subnets_decls cfg vpc SubnetTopologyPrivate refRT
           (if IsEnabled (AutoAllocateIPv6 (VPC cfg)) then i + 1 else i) entries)"
    by simp
  then show ?case
    using private_subnet_decls_kinds Cons.IH by blast
qed

lemma noNAT_decls_kinds_image:
  "(\<lambda>d. kindOf (snd d)) ` set (concat (map (noNAT_decls vpc) azs))
     \<subseteq> {K_RouteTable, K_SubnetRouteTableAssociation}"
  by (induction azs) (simp_all add: noNAT_decls_def)

lemma noNAT_decls_kinds:
  assumes "d \<in> set (concat (map (noNAT_decls vpc) azs))"
  shows "kindOf (snd d) = K_RouteTable \<or> kindOf (snd d) = K_SubnetRouteTableAssociation"
  using assms noNAT_decls_kinds_image [of vpc azs] by blast

lemma declared_Subnet_subnets_decls:
  "map fst (declared K_Subnet (subnets_decls cfg vpc topology refRT i entries)) =
   map (\<lambda>entry. ''Subnet'' @ topology_string topology @ aliasOf (fst entry)) entries"
  by (induction entries arbitrary: i)
    (simp_all add: declared_def subnet_decls_def subnetCidrBlock_decl_def)

lemma fullyPrivate_kinds:
  assumes "PrivateCluster_Enabled cfg" and "d \<in> set (build_decls cfg)"
  shows "kindOf (snd d) = K_VPC \<or> kindOf (snd d) = K_RouteTable \<or>
         (kindOf (snd d) = K_Subnet \<and> \<not> isPublicSubnet (snd d)) \<or>
         kindOf (snd d) = K_SubnetRouteTableAssociation \<or>
         (IsEnabled (AutoAllocateIPv6 (VPC cfg)) \<and>
            (kindOf (snd d) = K_VPCCidrBlock \<or> kindOf (snd d) = K_SubnetCidrBlock))"
proof -
  from assms have
    "d = (''VPC'', EC2_VPC (NewString (VPC_CIDR (VPC cfg))) GfnTrue GfnTrue) \<or>
     d \<in> set (autoCIDR_decls cfg (MakeRef ''VPC'')) \<or>
     d \<in> set (concat (map (noNAT_decls (MakeRef ''VPC'')) (AvailabilityZones cfg))) \<or>
     d \<in> set (private_decls cfg (MakeRef ''VPC''))"
    by (auto simp add: build_decls_def)
  then show ?thesis
  proof (elim disjE)
    assume "d = (''VPC'', EC2_VPC (NewString (VPC_CIDR (VPC cfg))) GfnTrue GfnTrue)"
    then show ?thesis by simp
  next
    assume "d \<in> set (autoCIDR_decls cfg (MakeRef ''VPC''))"
    then show ?thesis by (auto simp add: autoCIDR_decls_def split: if_splits)
  next
    assume "d \<in> set (concat (map (noNAT_decls (MakeRef ''VPC'')) (AvailabilityZones cfg)))"
    then show ?thesis using noNAT_decls_kinds by blast
  next
    assume "d \<in> set (private_decls cfg (MakeRef ''VPC''))"
    then show ?thesis
      unfolding private_decls_def using private_subnets_decls_kinds by blast
  qed
qed

text \<open>
  C1 (as amended). A build of a new network with the fully-private flag succeeds, and
  every resource it declares is the network, a private route table, a private subnet
  (none is public) or a route-table association, or, only when secondary-address-block
  auto-allocation is enabled, a secondary address block of the network or of a subnet.
  So it declares no internet gateway, no gateway attachment, no NAT gateway, no elastic
  address, no route and no public subnet. The route tables are the per-zone private
  ones, and the subnets are the private subnets of the specification.
\<close>

theorem fully_private_build_declares:
  assumes "VPC_ID (VPC cfg) = []" and "PrivateCluster_Enabled cfg"
  shows "\<exists>v'. addResources ec2 (NewIPv4VPCResourceSet r cfg) = Some (Inr (None, v')) \<and>
     (\<forall>d \<in> set (added r v').
        kindOf (snd d) \<notin> {K_InternetGateway, K_VPCGatewayAttachment, K_NatGateway, K_EIP, K_Route} \<and>
        \<not> isPublicSubnet (snd d)) \<and>
     (\<forall>d \<in> set (added r v').
        kindOf (snd d) \<in> {K_VPC, K_RouteTable, K_Subnet, K_SubnetRouteTableAssociation} \<or>
        (IsEnabled (AutoAllocateIPv6 (VPC cfg)) \<and>
           kindOf (snd d) \<in> {K_VPCCidrBlock, K_SubnetCidrBlock})) \<and>
     declared K_VPC (added r v') =
       [(''VPC'', EC2_VPC (NewString (VPC_CIDR (VPC cfg))) GfnTrue GfnTrue)] \<and>
     declared K_RouteTable (added r v') =
       map (\<lambda>az. (''PrivateRouteTable'' @ aliasOf az, EC2_RouteTable (MakeRef ''VPC'')))
         (AvailabilityZones cfg) \<and>
     map fst (declared K_Subnet (added r v')) =
       map (\<lambda>entry. ''SubnetPrivate'' @ aliasOf (fst entry))
         (entriesOf (Subnets_Private (Subnets (VPC cfg))))"
proof -
  let ?v' = "\<lparr>rs = r @ build_decls cfg, clusterConfig = cfg, vpcID = MakeRef ''VPC'',
              subnetDetails = \<lparr>Private = privateSubnetResources cfg, Public = []\<rparr>\<rparr>"
  have run: "addResources ec2 (NewIPv4VPCResourceSet r cfg) = Some (Inr (None, ?v'))"
    using assms by (simp add: build_new)
  have added: "added r ?v' = build_decls cfg"
    by (simp add: added_def)
  have kinds: "\<forall>d \<in> set (build_decls cfg).
        kindOf (snd d) = K_VPC \<or> kindOf (snd d) = K_RouteTable \<or>
         (kindOf (snd d) = K_Subnet \<and> \<not> isPublicSubnet (snd d)) \<or>
         kindOf (snd d) = K_SubnetRouteTableAssociation \<or>
         (IsEnabled (AutoAllocateIPv6 (VPC cfg)) \<and>
            (kindOf (snd d) = K_VPCCidrBlock \<or> kindOf (snd d) = K_SubnetCidrBlock))"
    using fullyPrivate_kinds [OF assms(2)] by blast
  have c1: "\<forall>d \<in> set (added r ?v').
        kindOf (snd d) \<notin> {K_InternetGateway, K_VPCGatewayAttachment, K_NatGateway, K_EIP, K_Route} \<and>
        \<not> isPublicSubnet (snd d)"
  proof
    fix d assume "d \<in> set (added r ?v')"
    with kinds added have k: "kindOf (snd d) = K_VPC \<or> kindOf (snd d) = K_RouteTable \<or>
         (kindOf (snd d) = K_Subnet \<and> \<not> isPublicSubnet (snd d)) \<or>
         kindOf (snd d) = K_SubnetRouteTableAssociation \<or>
         (IsEnabled (AutoAllocateIPv6 (VPC cfg)) \<and>
            (kindOf (snd d) = K_VPCCidrBlock \<or> kindOf (snd d) = K_SubnetCidrBlock))"
      by simp
    then show "kindOf (snd d) \<notin> {K_InternetGateway, K_VPCGatewayAttachment, K_NatGateway, K_EIP, K_Route} \<and>
        \<not> isPublicSubnet (snd d)"
      by (cases "snd d") auto
  qed
  have c2: "\<forall>d \<in> set (added r ?v').
        kindOf (snd d) \<in> {K_VPC, K_RouteTable, K_Subnet, K_SubnetRouteTableAssociation} \<or>
        (IsEnabled (AutoAllocateIPv6 (VPC cfg)) \<and>
           kindOf (snd d) \<in> {K_VPCCidrBlock, K_SubnetCidrBlock})"
    using kinds added by auto
  have c3: "declared K_VPC (added r ?v') =
       [(''VPC'', EC2_VPC (NewString (VPC_CIDR (VPC cfg))) GfnTrue GfnTrue)]"
    unfolding added using assms(2)
    by (simp add: build_decls_def declared_append declared_Cons declared_Nil private_decls_def
        declared_subnets_decls_other)
      (simp add: declared_decls)
  have c4: "declared K_RouteTable (added r ?v') =
       map (\<lambda>az. (''PrivateRouteTable'' @ aliasOf az, EC2_RouteTable (MakeRef ''VPC'')))
         (AvailabilityZones cfg)"
    using route_tables_of_build [OF assms(1) run] assms(2) by simp
  have c5: "map fst (declared K_Subnet (added r ?v')) =
       map (\<lambda>entry. ''SubnetPrivate'' @ aliasOf (fst entry))
         (entriesOf (Subnets_Private (Subnets (VPC cfg))))"
    unfolding added using assms(2)
    by (simp add: build_decls_def declared_append declared_Cons declared_Nil private_decls_def
        declared_Subnet_subnets_decls)
      (simp add: declared_decls)
  from run c1 c2 c3 c4 c5 show ?thesis by blast
qed

theorem fully_private_build_declares_witness:
  "VPC_ID (VPC (twoZoneCluster ClusterDisableNAT True None)) = [] \<and>
   PrivateCluster_Enabled (twoZoneCluster ClusterDisableNAT True None) \<and>
   (\<exists>v'. addResources emptyDirectory
            (NewIPv4VPCResourceSet [] (twoZoneCluster ClusterDisableNAT True None))
          = Some (Inr (None, v')) \<and>
      (\<forall>d \<in> set (added [] v').
         kindOf (snd d) \<in> {K_VPC, K_RouteTable, K_Subnet, K_SubnetRouteTableAssociation} \<and>
         \<not> isPublicSubnet (snd d)) \<and>
      map fst (declared K_VPC (added [] v')) = [''VPC''] \<and>
      map fst (declared K_RouteTable (added [] v')) =
        [''PrivateRouteTableUSEAST1A'', ''PrivateRouteTableUSEAST1B''] \<and>
      map fst (declared K_Subnet (added [] v')) =
        [''SubnetPrivateUSEAST1A'', ''SubnetPrivateUSEAST1B''])"
proof -
  let ?cfg = "twoZoneCluster ClusterDisableNAT True None"
  have h: "VPC_ID (VPC ?cfg) = []" "PrivateCluster_Enabled ?cfg"
    by (simp_all add: twoZoneCluster_simps)
  have off: "\<not> IsEnabled (AutoAllocateIPv6 (VPC ?cfg))"
    by (simp add: twoZoneCluster_simps IsEnabled_def)
  from fully_private_build_declares [OF h, of emptyDirectory "[]"] obtain v' where
    run: "addResources emptyDirectory (NewIPv4VPCResourceSet [] ?cfg) = Some (Inr (None, v'))"
    and none: "\<forall>d \<in> set (added [] v').
        kindOf (snd d) \<notin> {K_InternetGateway, K_VPCGatewayAttachment, K_NatGateway, K_EIP, K_Route} \<and>
        \<not> isPublicSubnet (snd d)"
    and only: "\<forall>d \<in> set (added [] v').
        kindOf (snd d) \<in> {K_VPC, K_RouteTable, K_Subnet, K_SubnetRouteTableAssociation} \<or>
        (IsEnabled (AutoAllocateIPv6 (VPC ?cfg)) \<and>
           kindOf (snd d) \<in> {K_VPCCidrBlock, K_SubnetCidrBlock})"
    and vpc: "declared K_VPC (added [] v') =
       [(''VPC'', EC2_VPC (NewString (VPC_CIDR (VPC ?cfg))) GfnTrue GfnTrue)]"
    and rts: "declared K_RouteTable (added [] v') =
       map (\<lambda>az. (''PrivateRouteTable'' @ aliasOf az, EC2_RouteTable (MakeRef ''VPC'')))
         (AvailabilityZones ?cfg)"
    and subs: "map fst (declared K_Subnet (added [] v')) =
       map (\<lambda>entry. ''SubnetPrivate'' @ aliasOf (fst entry))
         (entriesOf (Subnets_Private (Subnets (VPC ?cfg))))"
    by blast
  have a: "\<forall>d \<in> set (added [] v').
         kindOf (snd d) \<in> {K_VPC, K_RouteTable, K_Subnet, K_SubnetRouteTableAssociation} \<and>
         \<not> isPublicSubnet (snd d)"
    using none only off by blast
  have b: "map fst (declared K_VPC (added [] v')) = [''VPC'']"
    using vpc by simp
  have c: "map fst (declared K_RouteTable (added [] v')) =
        [''PrivateRouteTableUSEAST1A'', ''PrivateRouteTableUSEAST1B'']"
    using rts by (simp add: twoZoneCluster_simps aliasOf_zone_a aliasOf_zone_b)
  have d: "map fst (declared K_Subnet (added [] v')) =
        [''SubnetPrivateUSEAST1A'', ''SubnetPrivateUSEAST1B'']"
    using subs by (simp add: twoZoneCluster_simps aliasOf_zone_a aliasOf_zone_b)
  show ?thesis
    by (intro conjI exI [of _ v'] h run a b c d)
qed

text \<open>
  C1 as stated fails on its last part: with secondary-address-block auto-allocation
  enabled, a fully-private build also declares the secondary address block of the
  network and one per subnet, which are none of the network, the route tables, the
  subnets and the associations.
\<close>

theorem fully_private_build_with_ipv6_declares_more:
  "map_option (\<lambda>v'. map (\<lambda>d. (fst d, kindOf (snd d))) (added [] v'))
     (returned (addResources emptyDirectory
        (NewIPv4VPCResourceSet [] (twoZoneCluster ClusterDisableNAT True (Some True)))))
   = Some [(''VPC'', K_VPC),
           (''AutoAllocatedCIDRv6'', K_VPCCidrBlock),
           (''PrivateRouteTableUSEAST1A'', K_RouteTable),
           (''RouteTableAssociationPrivateUSEAST1A'', K_SubnetRouteTableAssociation),
           (''PrivateRouteTableUSEAST1B'', K_RouteTable),
           (''RouteTableAssociationPrivateUSEAST1B'', K_SubnetRouteTableAssociation),
           (''SubnetPrivateUSEAST1A'', K_Subnet),
           (''RouteTableAssociationPrivateUSEAST1A'', K_SubnetRouteTableAssociation),
           (''PrivateUSEAST1ACIDRv6'', K_SubnetCidrBlock),
           (''SubnetPrivateUSEAST1B'', K_Subnet),
           (''RouteTableAssociationPrivateUSEAST1B'', K_SubnetRouteTableAssociation),
           (''PrivateUSEAST1BCIDRv6'', K_SubnetCidrBlock)]"
  by code_simp

lemma declared_Association_subnets_decls:
  "declared K_SubnetRouteTableAssociation (subnets_decls cfg vpc topology refRT i entries) =
   map (\<lambda>entry.
          (''RouteTableAssociation'' @ topology_string topology @ aliasOf (fst entry),
           EC2_SubnetRouteTableAssociation
             (MakeRef (''Subnet'' @ topology_string topology @ aliasOf (fst entry)))
             (routeTableFor topology refRT (fst entry)))) entries"
  by (induction entries arbitrary: i)
    (simp_all add: declared_def subnet_decls_def subnetCidrBlock_decl_def)

text \<open>
  C7 (as amended). For every NAT mode outside the three known ones, the strategy
  selection \<open>addNATGateways\<close> returns the configuration error naming the mode and
  declares nothing. So every build that reaches the selection, that of a new network
  that is not fully private, fails with that error, and at that point no elastic
  address and no NAT gateway is declared, the only route table and route are the public
  ones, and the only associations are those of the public subnets with the public route
  table. The switch is exhaustive: the selection returns an error for no other mode.
  (A fully-private build and an import never read the NAT mode.)
\<close>

theorem unknown_NAT_mode_is_an_error:
  assumes "NAT_Gateway (VPC cfg) = UnknownNAT s"
  shows "(\<forall>v. clusterConfig v = cfg \<longrightarrow> addNATGateways v = Inr (Some (InvalidNATMode s), v)) \<and>
     (VPC_ID (VPC cfg) = [] \<and> \<not> PrivateCluster_Enabled cfg \<longrightarrow>
        (\<exists>v'. addResources ec2 (NewIPv4VPCResourceSet r cfg) = Some (Inr (Some (InvalidNATMode s), v')) \<and>
           declared K_EIP (added r v') = [] \<and>
           declared K_NatGateway (added r v') = [] \<and>
           declared K_RouteTable (added r v') =
             [(''PublicRouteTable'', EC2_RouteTable (MakeRef ''VPC''))] \<and>
           declared K_Route (added r v') =
             [(''PublicSubnetRoute'',
                EC2_Route (MakeRef ''PublicRouteTable'') (NewString ''0.0.0.0/0'')
                  (Some (MakeRef ''InternetGateway'')) None [''VPCGatewayAttachment''])] \<and>
           declared K_SubnetRouteTableAssociation (added r v') =
             map (\<lambda>entry.
                    (''RouteTableAssociationPublic'' @ aliasOf (fst entry),
                     EC2_SubnetRouteTableAssociation
                       (MakeRef (''SubnetPublic'' @ aliasOf (fst entry)))
                       (Some (MakeRef ''PublicRouteTable''))))
               (entriesOf (Subnets_Public (Subnets (VPC cfg)))))) \<and>
     (\<forall>w err w'. addNATGateways w = Inr (Some err, w') \<longrightarrow>
        (\<exists>s'. NAT_Gateway (VPC (clusterConfig w)) = UnknownNAT s'))"
proof (intro conjI allI impI)
  fix v :: IPv4VPCResourceSet
  assume "clusterConfig v = cfg"
  with assms show "addNATGateways v = Inr (Some (InvalidNATMode s), v)"
    by (simp add: addNATGateways_def)
next
  fix w err w'
  assume "addNATGateways w = Inr (Some err, w')"
  then show "\<exists>s'. NAT_Gateway (VPC (clusterConfig w)) = UnknownNAT s'"
    by (cases "NAT_Gateway (VPC (clusterConfig w))")
      (simp_all add: addNATGateways_eq split: if_splits)
next
  assume new: "VPC_ID (VPC cfg) = [] \<and> \<not> PrivateCluster_Enabled cfg"
  let ?v' = "\<lparr>rs = r @ [(''VPC'', EC2_VPC (NewString (VPC_CIDR (VPC cfg))) GfnTrue GfnTrue)]
                          @ public_decls cfg (MakeRef ''VPC''),
                   clusterConfig = cfg, vpcID = MakeRef ''VPC'',
                   subnetDetails = \<lparr>Private = [], Public = publicSubnetResources cfg\<rparr>\<rparr>"
  have run: "addResources ec2 (NewIPv4VPCResourceSet r cfg) = Some (Inr (Some (InvalidNATMode s), ?v'))"
    using new assms by (simp add: build_new)
  have added: "added r ?v' = [(''VPC'', EC2_VPC (NewString (VPC_CIDR (VPC cfg))) GfnTrue GfnTrue)]
                          @ public_decls cfg (MakeRef ''VPC'')"
    by (simp add: added_def)
  have eip: "declared K_EIP (added r ?v') = []"
    unfolding added
    by (simp add: declared_append declared_Cons declared_Nil public_decls_def
        declared_subnets_decls_other)
      (simp add: declared_decls)
  have ng: "declared K_NatGateway (added r ?v') = []"
    unfolding added
    by (simp add: declared_append declared_Cons declared_Nil public_decls_def
        declared_subnets_decls_other)
      (simp add: declared_decls)
  have rt: "declared K_RouteTable (added r ?v') =
             [(''PublicRouteTable'', EC2_RouteTable (MakeRef ''VPC''))]"
    unfolding added
    by (simp add: declared_append declared_Cons declared_Nil public_decls_def
        declared_subnets_decls_other)
      (simp add: declared_decls)
  have route: "declared K_Route (added r ?v') =
             [(''PublicSubnetRoute'',
                EC2_Route (MakeRef ''PublicRouteTable'') (NewString ''0.0.0.0/0'')
                  (Some (MakeRef ''InternetGateway'')) None [''VPCGatewayAttachment''])]"
    unfolding added
    by (simp add: declared_append declared_Cons declared_Nil public_decls_def
        declared_subnets_decls_other)
      (simp add: declared_decls InternetCIDR_def)
  have assoc: "declared K_SubnetRouteTableAssociation (added r ?v') =
             map (\<lambda>entry.
                    (''RouteTableAssociationPublic'' @ aliasOf (fst entry),
                     EC2_SubnetRouteTableAssociation
                       (MakeRef (''SubnetPublic'' @ aliasOf (fst entry)))
                       (Some (MakeRef ''PublicRouteTable''))))
               (entriesOf (Subnets_Public (Subnets (VPC cfg))))"
    unfolding added
    by (simp add: declared_append declared_Cons declared_Nil public_decls_def
        declared_Association_subnets_decls routeTableFor_def)
      (simp add: declared_decls)
  show "\<exists>v'. addResources ec2 (NewIPv4VPCResourceSet r cfg) = Some (Inr (Some (InvalidNATMode s), v')) \<and>
           declared K_EIP (added r v') = [] \<and>
           declared K_NatGateway (added r v') = [] \<and>
           declared K_RouteTable (added r v') =
             [(''PublicRouteTable'', EC2_RouteTable (MakeRef ''VPC''))] \<and>
           declared K_Route (added r v') =
             [(''PublicSubnetRoute'',
                EC2_Route (MakeRef ''PublicRouteTable'') (NewString ''0.0.0.0/0'')
                  (Some (MakeRef ''InternetGateway'')) None [''VPCGatewayAttachment''])] \<and>
           declared K_SubnetRouteTableAssociation (added r v') =
             map (\<lambda>entry.
                    (''RouteTableAssociationPublic'' @ aliasOf (fst entry),
                     EC2_SubnetRouteTableAssociation
                       (MakeRef (''SubnetPublic'' @ aliasOf (fst entry)))
                       (Some (MakeRef ''PublicRouteTable''))))
               (entriesOf (Subnets_Public (Subnets (VPC cfg))))"
    by (intro exI [of _ ?v'] conjI run eip ng rt route assoc)
qed

theorem unknown_NAT_mode_is_an_error_witness:
  "NAT_Gateway (VPC (twoZoneCluster (UnknownNAT ''bogus'') False None)) = UnknownNAT ''bogus'' \<and>
   VPC_ID (VPC (twoZoneCluster (UnknownNAT ''bogus'') False None)) = [] \<and>
   \<not> PrivateCluster_Enabled (twoZoneCluster (UnknownNAT ''bogus'') False None) \<and>
   addNATGateways (NewIPv4VPCResourceSet [] (twoZoneCluster (UnknownNAT ''bogus'') False None)) =
     Inr (Some (InvalidNATMode ''bogus''),
          NewIPv4VPCResourceSet [] (twoZoneCluster (UnknownNAT ''bogus'') False None)) \<and>
   (\<exists>v'. addResources emptyDirectory
            (NewIPv4VPCResourceSet [] (twoZoneCluster (UnknownNAT ''bogus'') False None))
          = Some (Inr (Some (InvalidNATMode ''bogus''), v')) \<and>
      declared K_EIP (added [] v') = [] \<and>
      declared K_NatGateway (added [] v') = [] \<and>
      map fst (declared K_RouteTable (added [] v')) = [''PublicRouteTable''] \<and>
      map fst (declared K_Route (added [] v')) = [''PublicSubnetRoute''] \<and>
      map fst (declared K_SubnetRouteTableAssociation (added [] v')) =
        [''RouteTableAssociationPublicUSEAST1A'', ''RouteTableAssociationPublicUSEAST1B''])"
proof -
  let ?cfg = "twoZoneCluster (UnknownNAT ''bogus'') False None"
  have h: "NAT_Gateway (VPC ?cfg) = UnknownNAT ''bogus''"
    by (simp add: twoZoneCluster_simps)
  have new: "VPC_ID (VPC ?cfg) = []" "\<not> PrivateCluster_Enabled ?cfg"
    by (simp_all add: twoZoneCluster_simps)
  have cc: "clusterConfig (NewIPv4VPCResourceSet [] ?cfg) = ?cfg"
    by (simp add: NewIPv4VPCResourceSet_def newResource_def)
  note inst = unknown_NAT_mode_is_an_error [OF h, of emptyDirectory "[]"]
  from inst cc have sel:
    "addNATGateways (NewIPv4VPCResourceSet [] ?cfg) =
       Inr (Some (InvalidNATMode ''bogus''), NewIPv4VPCResourceSet [] ?cfg)"
    by blast
  from inst new obtain v' where
    run: "addResources emptyDirectory (NewIPv4VPCResourceSet [] ?cfg)
            = Some (Inr (Some (InvalidNATMode ''bogus''), v'))"
    and eip: "declared K_EIP (added [] v') = []"
    and ng: "declared K_NatGateway (added [] v') = []"
    and rt: "declared K_RouteTable (added [] v') =
             [(''PublicRouteTable'', EC2_RouteTable (MakeRef ''VPC''))]"
    and route: "declared K_Route (added [] v') =
             [(''PublicSubnetRoute'',
                EC2_Route (MakeRef ''PublicRouteTable'') (NewString ''0.0.0.0/0'')
                  (Some (MakeRef ''InternetGateway'')) None [''VPCGatewayAttachment''])]"
    and assoc: "declared K_SubnetRouteTableAssociation (added [] v') =
             map (\<lambda>entry.
                    (''RouteTableAssociationPublic'' @ aliasOf (fst entry),
                     EC2_SubnetRouteTableAssociation
                       (MakeRef (''SubnetPublic'' @ aliasOf (fst entry)))
                       (Some (MakeRef ''PublicRouteTable''))))
               (entriesOf (Subnets_Public (Subnets (VPC ?cfg))))"
    by blast
  have rt': "map fst (declared K_RouteTable (added [] v')) = [''PublicRouteTable'']"
    using rt by simp
  have route': "map fst (declared K_Route (added [] v')) = [''PublicSubnetRoute'']"
    using route by simp
  have assoc': "map fst (declared K_SubnetRouteTableAssociation (added [] v')) =
        [''RouteTableAssociationPublicUSEAST1A'', ''RouteTableAssociationPublicUSEAST1B'']"
    using assoc by (simp add: twoZoneCluster_simps aliasOf_zone_a aliasOf_zone_b)
  show ?thesis
    by (intro conjI exI [of _ v'] h new sel run eip ng rt' route' assoc')
qed

text \<open>
  C7 as stated fails for a fully-private build: it never reads the NAT mode, so with an
  unknown mode it succeeds.
\<close>

theorem fully_private_build_ignores_NAT_mode:
  "outcomeOf (addResources emptyDirectory
      (NewIPv4VPCResourceSet [] (twoZoneCluster (UnknownNAT ''bogus'') True None))) = Succeeded"
  by code_simp

section \<open>Secondary address blocks\<close>

lemma declared_CidrBlock_subnets_decls:
  "declared K_SubnetCidrBlock (subnets_decls cfg vpc topology refRT (int n) entries) =
     (if IsEnabled (AutoAllocateIPv6 (VPC cfg))
      then map (\<lambda>(k, entry). subnetCidrBlock_decl cfg topology (int k) entry) (enumerate n entries)
      else [])"
proof (induction entries arbitrary: n)
  case Nil
  then show ?case by (simp add: declared_Nil)
next
  case (Cons entry entries)
  have step: "int n + 1 = int (Suc n)" by simp
  show ?case
    using Cons [of "Suc n"] Cons [of n]
    by (simp add: declared_append step del: of_nat_Suc)
      (simp add: declared_def subnet_decls_def subnetCidrBlock_decl_def)
qed

lemma firstIndex_nat:
  "firstIndex cfg topology =
     int (if IsEnabled (AutoAllocateIPv6 (VPC cfg))
          then (case topology of
                  SubnetTopologyPrivate \<Rightarrow> length (AvailabilityZones cfg)
                | SubnetTopologyPublic \<Rightarrow> 0)
          else 0)"
  by (cases topology) (simp_all add: firstIndex_def)

text \<open>
  C6. With secondary-address-block auto-allocation enabled, one pass of the subnet
  allocator declares for the subnets, in the order it processes them, the secondary
  blocks \<open><Role><alias>CIDRv6\<close>, each selecting from the pool of size
  \<open>2 * zoneCount + 2\<close> the index \<open>base + k\<close>, where \<open>k\<close> counts the subnets processed
  before it in this pass and \<open>base\<close> is \<open>zoneCount\<close> for the private role and \<open>0\<close> for
  the public role.
\<close>

theorem secondary_block_index_by_position:
  assumes "IsEnabled (AutoAllocateIPv6 (VPC (clusterConfig v)))"
  shows "declared K_SubnetCidrBlock (added (rs v) (fst (addSubnets v refRT topology subnets))) =
     map (\<lambda>(i, entry).
            (topology_string topology @ aliasOf (fst entry) @ ''CIDRv6'',
             EC2_SubnetCidrBlock
               (MakeRef (''Subnet'' @ topology_string topology @ aliasOf (fst entry)))
               (MakeFnSelect (NewInteger (int i))
                  (getSubnetIPv6CIDRBlock
                     (int (length (AvailabilityZones (clusterConfig v))) * 2 + 2)))))
       (enumerate
          (case topology of
             SubnetTopologyPrivate \<Rightarrow> length (AvailabilityZones (clusterConfig v))
           | SubnetTopologyPublic \<Rightarrow> 0)
          (entriesOf subnets))"
  using assms
  by (auto simp add: addSubnets_eq added_def firstIndex_nat declared_CidrBlock_subnets_decls
      subnetCidrBlock_decl_def)

theorem secondary_block_index_by_position_witness:
  "IsEnabled (AutoAllocateIPv6 (VPC (clusterConfig
      (NewIPv4VPCResourceSet [] (twoZoneCluster ClusterDisableNAT False (Some True)))))) \<and>
   map (\<lambda>d. (fst d, Ipv6CidrBlock (snd d)))
     (declared K_SubnetCidrBlock
        (added (rs (NewIPv4VPCResourceSet [] (twoZoneCluster ClusterDisableNAT False (Some True))))
           (fst (addSubnets (NewIPv4VPCResourceSet [] (twoZoneCluster ClusterDisableNAT False (Some True)))
                   None SubnetTopologyPrivate
                   (Subnets_Private (Subnets (VPC (twoZoneCluster ClusterDisableNAT False (Some True))))))))) =
     [(''PrivateUSEAST1ACIDRv6'', MakeFnSelect (NewInteger 2) (SubnetIPv6CIDRBlock 6)),
      (''PrivateUSEAST1BCIDRv6'', MakeFnSelect (NewInteger 3) (SubnetIPv6CIDRBlock 6))]"
proof -
  let ?cfg = "twoZoneCluster ClusterDisableNAT False (Some True)"
  let ?v = "NewIPv4VPCResourceSet [] ?cfg"
  have cc: "clusterConfig ?v = ?cfg"
    by (simp add: NewIPv4VPCResourceSet_def newResource_def)
  have h: "IsEnabled (AutoAllocateIPv6 (VPC (clusterConfig ?v)))"
    by (simp add: cc twoZoneCluster_simps IsEnabled_def)
  from secondary_block_index_by_position [OF h, of None SubnetTopologyPrivate
      "Subnets_Private (Subnets (VPC ?cfg))"]
  have "map (\<lambda>d. (fst d, Ipv6CidrBlock (snd d)))
     (declared K_SubnetCidrBlock
        (added (rs ?v) (fst (addSubnets ?v None SubnetTopologyPrivate
                   (Subnets_Private (Subnets (VPC ?cfg))))))) =
     [(''PrivateUSEAST1ACIDRv6'', MakeFnSelect (NewInteger 2) (SubnetIPv6CIDRBlock 6)),
      (''PrivateUSEAST1BCIDRv6'', MakeFnSelect (NewInteger 3) (SubnetIPv6CIDRBlock 6))]"
    by (simp add: cc twoZoneCluster_simps aliasOf_zone_a aliasOf_zone_b getSubnetIPv6CIDRBlock_def)
  with h show ?thesis by (intro conjI)
qed







section \<open>Route tables of the private subnets\<close>

lemma in_declared: "d \<in> set (declared k r) \<Longrightarrow> d \<in> set r"
  by (simp add: declared_def)

lemma private_route_table_declared:
  assumes "az \<in> set azs"
  shows "(''PrivateRouteTable'' @ aliasOf az, EC2_RouteTable vpc) \<in> set (concat (map (haNAT_decls vpc) azs))"
    and "(''PrivateRouteTable'' @ aliasOf az, EC2_RouteTable vpc) \<in> set (concat (map (noNAT_decls vpc) azs))"
    and "(''PrivateRouteTable'' @ aliasOf az, EC2_RouteTable vpc)
           \<in> set (concat (map (singleNAT_decls vpc refNG) azs))"
proof -
  let ?d = "(''PrivateRouteTable'' @ aliasOf az, EC2_RouteTable vpc)"
  have "?d \<in> set (declared K_RouteTable (concat (map (haNAT_decls vpc) azs)))"
    using assms by (simp add: declared_decls)
  then show "?d \<in> set (concat (map (haNAT_decls vpc) azs))" by (rule in_declared)
  have "?d \<in> set (declared K_RouteTable (concat (map (noNAT_decls vpc) azs)))"
    using assms by (simp add: declared_decls)
  then show "?d \<in> set (concat (map (noNAT_decls vpc) azs))" by (rule in_declared)
  have "?d \<in> set (declared K_RouteTable (concat (map (singleNAT_decls vpc refNG) azs)))"
    using assms by (simp add: declared_decls)
  then show "?d \<in> set (concat (map (singleNAT_decls vpc refNG) azs))" by (rule in_declared)
qed

text \<open>
  C3 (as amended). For every private subnet the allocator processes, the route-table
  reference in its \<open>SubnetResource\<close> and in its route-table association is the by-name
  reference \<open>PrivateRouteTable<alias>\<close>, whatever reference was passed in, where the alias
  is derived from the subnet's logical name, its key in the subnet mapping (uppercased,
  \<open>-\<close> removed), not from its availability zone. The reference names the private route
  table that each NAT strategy declares for the subnet's zone whenever the name and the
  zone have the same alias, as they do for a subnet keyed by its zone, and the zone is
  in the zone list.
\<close>

theorem private_subnet_route_table_by_name:
  "snd (addSubnets v refRT SubnetTopologyPrivate subnets) =
     map (\<lambda>entry.
            \<lparr>Subnet = MakeRef (''SubnetPrivate'' @ aliasOf (fst entry)),
             RouteTable = Some (MakeRef (''PrivateRouteTable'' @ aliasOf (fst entry))),
             AvailabilityZone = AZ (snd entry)\<rparr>) (entriesOf subnets) \<and>
   declared K_SubnetRouteTableAssociation
       (added (rs v) (fst (addSubnets v refRT SubnetTopologyPrivate subnets))) =
     map (\<lambda>entry.
            (''RouteTableAssociationPrivate'' @ aliasOf (fst entry),
             EC2_SubnetRouteTableAssociation
               (MakeRef (''SubnetPrivate'' @ aliasOf (fst entry)))
               (Some (MakeRef (''PrivateRouteTable'' @ aliasOf (fst entry)))))) (entriesOf subnets) \<and>
   (\<forall>entry \<in> set (entriesOf subnets).
      aliasOf (fst entry) = aliasOf (AZ (snd entry)) \<and>
      AZ (snd entry) \<in> set (AvailabilityZones (clusterConfig w)) \<longrightarrow>
        (''PrivateRouteTable'' @ aliasOf (fst entry), EC2_RouteTable (vpcID w)) \<in> set (rs (haNAT w)) \<and>
        (''PrivateRouteTable'' @ aliasOf (fst entry), EC2_RouteTable (vpcID w)) \<in> set (rs (noNAT w)) \<and>
        (\<exists>w'. singleNAT w = Inr w' \<and>
           (''PrivateRouteTable'' @ aliasOf (fst entry), EC2_RouteTable (vpcID w)) \<in> set (rs w')))"
proof (intro conjI ballI impI)
  show "snd (addSubnets v refRT SubnetTopologyPrivate subnets) =
     map (\<lambda>entry.
            \<lparr>Subnet = MakeRef (''SubnetPrivate'' @ aliasOf (fst entry)),
             RouteTable = Some (MakeRef (''PrivateRouteTable'' @ aliasOf (fst entry))),
             AvailabilityZone = AZ (snd entry)\<rparr>) (entriesOf subnets)"
    by (simp add: addSubnets_eq subnetResourceFor_def routeTableFor_def)
next
  show "declared K_SubnetRouteTableAssociation
       (added (rs v) (fst (addSubnets v refRT SubnetTopologyPrivate subnets))) =
     map (\<lambda>entry.
            (''RouteTableAssociationPrivate'' @ aliasOf (fst entry),
             EC2_SubnetRouteTableAssociation
               (MakeRef (''SubnetPrivate'' @ aliasOf (fst entry)))
               (Some (MakeRef (''PrivateRouteTable'' @ aliasOf (fst entry)))))) (entriesOf subnets)"
    by (simp add: addSubnets_eq added_def declared_Association_subnets_decls routeTableFor_def)
next
  fix entry
  assume "entry \<in> set (entriesOf subnets)"
    and same: "aliasOf (fst entry) = aliasOf (AZ (snd entry)) \<and>
      AZ (snd entry) \<in> set (AvailabilityZones (clusterConfig w))"
  let ?az = "AZ (snd entry)"
  have zone: "?az \<in> set (AvailabilityZones (clusterConfig w))"
    using same by blast
  have same_alias: "aliasOf (fst entry) = aliasOf ?az"
    using same by blast
  show "(''PrivateRouteTable'' @ aliasOf (fst entry), EC2_RouteTable (vpcID w)) \<in> set (rs (haNAT w))"
    unfolding same_alias using private_route_table_declared(1) [OF zone, of "vpcID w"]
    by (simp add: haNAT_eq)
  show "(''PrivateRouteTable'' @ aliasOf (fst entry), EC2_RouteTable (vpcID w)) \<in> set (rs (noNAT w))"
    unfolding same_alias using private_route_table_declared(2) [OF zone, of "vpcID w"]
    by (simp add: noNAT_eq)
  obtain az0 azs where azs: "AvailabilityZones (clusterConfig w) = az0 # azs"
    using zone by (cases "AvailabilityZones (clusterConfig w)") auto
  show "\<exists>w'. singleNAT w = Inr w' \<and>
           (''PrivateRouteTable'' @ aliasOf (fst entry), EC2_RouteTable (vpcID w)) \<in> set (rs w')"
    unfolding same_alias
    using private_route_table_declared(3) [OF zone, of "vpcID w" "MakeRef ''NATGateway''"]
    by (simp add: singleNAT_eq azs)
qed

lemma aliasOf_private_one: "aliasOf ''private-one'' = ''PRIVATEONE''"
  by code_simp

theorem private_subnet_route_table_by_name_witness:
  "map RouteTable
     (snd (addSubnets (NewIPv4VPCResourceSet [] (twoZoneCluster ClusterSingleNAT False None))
             (Some (MakeRef ''PublicRouteTable'')) SubnetTopologyPrivate
             (Subnets_Private (Subnets (VPC (twoZoneCluster ClusterSingleNAT False None)))))) =
     [Some (MakeRef ''PrivateRouteTableUSEAST1A''), Some (MakeRef ''PrivateRouteTableUSEAST1B'')] \<and>
   (''PrivateRouteTableUSEAST1B'', EC2_RouteTable (MakeRef ''VPC''))
     \<in> set (rs (haNAT (NewIPv4VPCResourceSet [] (twoZoneCluster ClusterSingleNAT False None)))) \<and>
   (''PrivateRouteTableUSEAST1B'', EC2_RouteTable (MakeRef ''VPC''))
     \<in> set (rs (noNAT (NewIPv4VPCResourceSet [] (twoZoneCluster ClusterSingleNAT False None)))) \<and>
   (\<exists>w'. singleNAT (NewIPv4VPCResourceSet [] (twoZoneCluster ClusterSingleNAT False None)) = Inr w' \<and>
      (''PrivateRouteTableUSEAST1B'', EC2_RouteTable (MakeRef ''VPC'')) \<in> set (rs w'))"
proof -
  let ?cfg = "twoZoneCluster ClusterSingleNAT False None"
  let ?v = "NewIPv4VPCResourceSet [] ?cfg"
  let ?b = "(''us-east-1b'', \<lparr>ID = [], AZ = ''us-east-1b'', CIDR = ''10.0.96.0/19''\<rparr>)"
  have v: "clusterConfig ?v = ?cfg" "vpcID ?v = MakeRef ''VPC''"
    by (simp_all add: NewIPv4VPCResourceSet_def newResource_def twoZoneCluster_simps)
  note inst = private_subnet_route_table_by_name
    [of ?v "Some (MakeRef ''PublicRouteTable'')" "Subnets_Private (Subnets (VPC ?cfg))" ?v]
  have mem: "?b \<in> set (entriesOf (Subnets_Private (Subnets (VPC ?cfg))))"
    by (simp add: twoZoneCluster_simps)
  have pre: "aliasOf (fst ?b) = aliasOf (AZ (snd ?b)) \<and>
      AZ (snd ?b) \<in> set (AvailabilityZones (clusterConfig ?v))"
    by (simp add: v twoZoneCluster_simps)
  from inst have a: "map RouteTable
     (snd (addSubnets ?v (Some (MakeRef ''PublicRouteTable'')) SubnetTopologyPrivate
             (Subnets_Private (Subnets (VPC ?cfg))))) =
     [Some (MakeRef ''PrivateRouteTableUSEAST1A''), Some (MakeRef ''PrivateRouteTableUSEAST1B'')]"
    by (simp add: twoZoneCluster_simps aliasOf_zone_a aliasOf_zone_b)
  from inst mem pre have
    "(''PrivateRouteTable'' @ aliasOf (fst ?b), EC2_RouteTable (vpcID ?v)) \<in> set (rs (haNAT ?v)) \<and>
     (''PrivateRouteTable'' @ aliasOf (fst ?b), EC2_RouteTable (vpcID ?v)) \<in> set (rs (noNAT ?v)) \<and>
     (\<exists>w'. singleNAT ?v = Inr w' \<and>
        (''PrivateRouteTable'' @ aliasOf (fst ?b), EC2_RouteTable (vpcID ?v)) \<in> set (rs w'))"
    by blast
  then have b:
    "(''PrivateRouteTableUSEAST1B'', EC2_RouteTable (MakeRef ''VPC'')) \<in> set (rs (haNAT ?v))"
    "(''PrivateRouteTableUSEAST1B'', EC2_RouteTable (MakeRef ''VPC'')) \<in> set (rs (noNAT ?v))"
    "\<exists>w'. singleNAT ?v = Inr w' \<and>
      (''PrivateRouteTableUSEAST1B'', EC2_RouteTable (MakeRef ''VPC'')) \<in> set (rs w')"
    by (simp_all add: v aliasOf_zone_b)
  show ?thesis
    by (intro conjI a b)
qed

text \<open>
  C3 as stated fails: a private subnet keyed \<open>private-one\<close> in the zone \<open>us-east-1a\<close> is
  wired to \<open>PrivateRouteTablePRIVATEONE\<close>, an alias of its name, while the strategy
  declares the zone's table as \<open>PrivateRouteTableUSEAST1A\<close>.
\<close>

theorem private_subnet_alias_is_of_the_name:
  "map_option (\<lambda>v'. (map RouteTable (Private (subnetDetails v')),
                      map fst (declared K_RouteTable (added [] v'))))
     (returned (addResources emptyDirectory (NewIPv4VPCResourceSet [] namedSubnetCluster)))
   = Some ([Some (MakeRef ''PrivateRouteTablePRIVATEONE'')],
           [''PublicRouteTable'', ''PrivateRouteTableUSEAST1A''])"
  by code_simp

section \<open>The import\<close>

lemma pagination_ends_returns:
  "pagination_ends ec2 subnetIDs nextToken \<Longrightarrow>
   \<exists>res. describeAllRouteTables ec2 subnetIDs nextToken routeTables = Some res"
proof (induction arbitrary: routeTables rule: pagination_ends.induct)
  case (call_fails nextToken err)
  then show ?case by (subst describeAllRouteTables.simps) simp
next
  case (last_page nextToken out)
  then show ?case by (subst describeAllRouteTables.simps) simp
next
  case (next_page nextToken out t)
  from next_page.IH [of "routeTables @ RouteTables out"] next_page.hyps(1,2)
  show ?case by (subst describeAllRouteTables.simps) simp
qed

lemma makeSubnetResources_loop_no_routes:
  "makeSubnetResources_loop subnets None acc =
     Inr (acc @ map (\<lambda>entry. \<lparr>Subnet = NewString (ID (snd entry)), RouteTable = None,
                                AvailabilityZone = AZ (snd entry)\<rparr>) subnets)"
  by (induction subnets arbitrary: acc) (auto simp add: Let_def)

lemma makeSubnetResources_loop_routes:
  "makeSubnetResources_loop subnets (Some routes) acc =
     (case find (\<lambda>entry. routes (ID (snd entry)) = None) subnets of
        Some entry \<Rightarrow> Inl (NoExplicitRouteTable (ID (snd entry)))
      | None \<Rightarrow>
          Inr (acc @ map (\<lambda>entry. \<lparr>Subnet = NewString (ID (snd entry)),
                                     RouteTable = map_option NewString (routes (ID (snd entry))),
                                     AvailabilityZone = AZ (snd entry)\<rparr>) subnets))"
  by (induction subnets arbitrary: acc) (auto simp add: Let_def split: prod.splits option.splits)

lemma importResources_public_frame:
  "importResources_public v = (err, v') \<Longrightarrow>
   rs v' = rs v \<and> vpcID v' = vpcID v \<and> clusterConfig v' = clusterConfig v"
  by (auto simp add: importResources_public_def split: option.splits sum.splits)

lemma importResources_frame:
  assumes "importResources ec2 v = Some (Inr (err, v'))"
  shows "rs v' = rs v \<and> vpcID v' = vpcID v \<and> clusterConfig v' = clusterConfig v"
proof (cases "Subnets_Private (Subnets (VPC (clusterConfig v)))")
  case None
  with assms show ?thesis
    using importResources_public_frame [of v err v'] by (simp add: importResources_def)
next
  case (Some subnets)
  with assms consider
      "v' = v"
    | subnetResources where
        "importResources_public (v\<lparr>subnetDetails := (subnetDetails v)\<lparr>Private := subnetResources\<rparr>\<rparr>)
           = (err, v')"
    by (auto simp add: importResources_def split: option.splits sum.splits if_splits)
  then show ?thesis
  proof cases
    case 1
    then show ?thesis by simp
  next
    case 2
    from importResources_public_frame [OF 2] show ?thesis by simp
  qed
qed

lemma importResources_returns:
  assumes "Subnets_Private (Subnets (VPC (clusterConfig v))) = Some subnets"
    and "describeAllRouteTables ec2 (subnetIDsOf subnets) None [] = Some res"
  shows "importResources ec2 v \<noteq> None"
  using assms
  by (auto simp add: importResources_def importRouteTables_def subnetIDsOf_def Let_def
      split: option.splits sum.splits)

lemma importResources_no_query:
  assumes "\<not> isFullyPrivate v \<or> Subnets_Private (Subnets (VPC (clusterConfig v))) = None"
  shows "importResources ec2' v = importResources ec2 v"
    and "\<exists>err v'. importResources ec2 v = Some (Inr (err, v'))"
  using assms
  by (auto simp add: importResources_def makeSubnetResources_def makeSubnetResources_loop_no_routes
      split: option.splits sum.splits prod.splits intro: prod.exhaust)

lemma addResources_import_frame:
  assumes "VPC_ID (VPC (clusterConfig v)) \<noteq> []"
    and "addResources ec2 v = Some (Inr (err, v'))"
  shows "rs v' = rs v"
proof -
  from assms obtain err' where "importResources ec2 v = Some (Inr (err', v'))"
    by (auto simp add: addResources_def Let_def split: option.splits sum.splits prod.splits)
  then show ?thesis
    using importResources_frame by blast
qed

lemma NewIPv4VPCResourceSet_existing:
  "VPC_ID (VPC cfg) \<noteq> [] \<Longrightarrow>
   NewIPv4VPCResourceSet r cfg =
     \<lparr>rs = r, clusterConfig = cfg, vpcID = NewString (VPC_ID (VPC cfg)),
      subnetDetails = \<lparr>Private = [], Public = []\<rparr>\<rparr>"
  by (simp add: NewIPv4VPCResourceSet_def)

text \<open>
  C9. On the import path nothing is declared. Whatever \<open>importResources\<close> returns, an
  error or not, the resource set it returns is the one it was given; with a pre-existing
  network identifier the constructor declares nothing and \<open>addResources\<close> returns the
  resource set unchanged. The remote directory enters only as the query
  \<open>DescribeRouteTables\<close>, a function from a request to an answer: when the build is not
  fully private or has no private subnets, the import returns and its result does not
  depend on the directory at all (no query is made); otherwise it returns whenever the
  pagination of the query ends.
\<close>

theorem import_declares_nothing:
  "(\<forall>err v'. importResources ec2 v = Some (Inr (err, v')) \<longrightarrow> rs v' = rs v) \<and>
   (VPC_ID (VPC cfg) \<noteq> [] \<longrightarrow>
      rs (NewIPv4VPCResourceSet r cfg) = r \<and>
      (\<forall>err v'. addResources ec2 (NewIPv4VPCResourceSet r cfg) = Some (Inr (err, v')) \<longrightarrow> rs v' = r)) \<and>
   (\<not> isFullyPrivate v \<or> Subnets_Private (Subnets (VPC (clusterConfig v))) = None \<longrightarrow>
      (\<exists>err v'. importResources ec2 v = Some (Inr (err, v'))) \<and>
      importResources ec2' v = importResources ec2 v) \<and>
   (\<forall>subnets. Subnets_Private (Subnets (VPC (clusterConfig v))) = Some subnets \<and>
      pagination_ends ec2 (subnetIDsOf subnets) None \<longrightarrow> importResources ec2 v \<noteq> None)"
proof (intro conjI allI impI)
  fix err v'
  assume "importResources ec2 v = Some (Inr (err, v'))"
  then show "rs v' = rs v"
    using importResources_frame by blast
next
  assume "VPC_ID (VPC cfg) \<noteq> []"
  then show "rs (NewIPv4VPCResourceSet r cfg) = r"
    by (simp add: NewIPv4VPCResourceSet_existing)
next
  fix err v'
  assume "VPC_ID (VPC cfg) \<noteq> []"
    and "addResources ec2 (NewIPv4VPCResourceSet r cfg) = Some (Inr (err, v'))"
  then show "rs v' = r"
    using addResources_import_frame [of "NewIPv4VPCResourceSet r cfg" ec2 err v']
    by (simp add: NewIPv4VPCResourceSet_existing)
next
  assume "\<not> isFullyPrivate v \<or> Subnets_Private (Subnets (VPC (clusterConfig v))) = None"
  then show "\<exists>err v'. importResources ec2 v = Some (Inr (err, v'))"
    by (rule importResources_no_query(2))
next
  assume "\<not> isFullyPrivate v \<or> Subnets_Private (Subnets (VPC (clusterConfig v))) = None"
  then show "importResources ec2' v = importResources ec2 v"
    by (rule importResources_no_query(1))
next
  fix subnets
  assume a: "Subnets_Private (Subnets (VPC (clusterConfig v))) = Some subnets \<and>
      pagination_ends ec2 (subnetIDsOf subnets) None"
  then obtain res where "describeAllRouteTables ec2 (subnetIDsOf subnets) None [] = Some res"
    using pagination_ends_returns by blast
  with a show "importResources ec2 v \<noteq> None"
    using importResources_returns by blast
qed

lemma pagedDirectory_ends: "pagination_ends pagedDirectory subnetIDs None"
proof -
  have "pagination_ends pagedDirectory subnetIDs (Some ''page-2'')"
    by (rule pagination_ends.last_page [where page =
          "\<lparr>RouteTables =
               [\<lparr>rt_RouteTableId = Some ''rtb-b'',
                 rt_Associations = [\<lparr>rta_Main = None, rta_SubnetId = Some ''subnet-b''\<rparr>]\<rparr>],
             NextToken = None\<rparr>"])
      (simp_all add: pagedDirectory_def)
  then show ?thesis
    by (rule pagination_ends.next_page [where t = "''page-2''" and page =
          "\<lparr>RouteTables =
                 [\<lparr>rt_RouteTableId = Some ''rtb-a'',
                   rt_Associations = [\<lparr>rta_Main = Some False, rta_SubnetId = Some ''subnet-a''\<rparr>]\<rparr>],
               NextToken = Some ''page-2''\<rparr>", rotated 2])
      (simp_all add: pagedDirectory_def)
qed

lemma pagedDirectory_tables:
  "describeAllRouteTables pagedDirectory subnetIDs None [] =
     Some (Inr [\<lparr>rt_RouteTableId = Some ''rtb-a'',
                 rt_Associations = [\<lparr>rta_Main = Some False, rta_SubnetId = Some ''subnet-a''\<rparr>]\<rparr>,
                \<lparr>rt_RouteTableId = Some ''rtb-b'',
                 rt_Associations = [\<lparr>rta_Main = None, rta_SubnetId = Some ''subnet-b''\<rparr>]\<rparr>])"
  by (subst describeAllRouteTables.simps, simp add: pagedDirectory_def,
      subst describeAllRouteTables.simps, simp add: pagedDirectory_def)

lemma mainTableDirectory_tables:
  "describeAllRouteTables mainTableDirectory subnetIDs None [] =
     Some (Inr [\<lparr>rt_RouteTableId = Some ''rtb-main'',
              rt_Associations = [\<lparr>rta_Main = Some True, rta_SubnetId = None\<rparr>,
                                 \<lparr>rta_Main = Some False, rta_SubnetId = Some ''subnet-b''\<rparr>]\<rparr>])"
  by (subst describeAllRouteTables.simps, simp add: mainTableDirectory_def)

lemma import_twoSubnets_paged:
  "importResources pagedDirectory (NewIPv4VPCResourceSet r (existingCluster True (Some twoSubnets) None)) =
     Some (Inr (None,
       \<lparr>rs = r, clusterConfig = existingCluster True (Some twoSubnets) None, vpcID = NewString ''vpc-1'',
        subnetDetails =
          \<lparr>Private = [\<lparr>Subnet = NewString ''subnet-a'', RouteTable = Some (NewString ''rtb-a''),
                        AvailabilityZone = ''us-east-1a''\<rparr>,
                       \<lparr>Subnet = NewString ''subnet-b'', RouteTable = Some (NewString ''rtb-b''),
                        AvailabilityZone = ''us-east-1b''\<rparr>],
           Public = []\<rparr>\<rparr>))"
  by (simp add: importResources_def importRouteTables_def pagedDirectory_tables
      NewIPv4VPCResourceSet_def existingCluster_def twoSubnets_def importedSubnet_def isFullyPrivate_def
      makeSubnetResources_def importResources_public_def Let_def)

theorem import_declares_nothing_witness:
  "VPC_ID (VPC (existingCluster True (Some twoSubnets) None)) \<noteq> [] \<and>
   Subnets_Private (Subnets (VPC (clusterConfig
       (NewIPv4VPCResourceSet [] (existingCluster True (Some twoSubnets) None))))) = Some twoSubnets \<and>
   pagination_ends pagedDirectory (subnetIDsOf twoSubnets) None \<and>
   importResources pagedDirectory (NewIPv4VPCResourceSet [] (existingCluster True (Some twoSubnets) None))
     \<noteq> None \<and>
   (\<exists>v'. addResources pagedDirectory (NewIPv4VPCResourceSet [] (existingCluster True (Some twoSubnets) None))
            = Some (Inr (None, v')) \<and> rs v' = [])"
proof -
  let ?cfg = "existingCluster True (Some twoSubnets) None"
  let ?v = "NewIPv4VPCResourceSet [] ?cfg"
  have h: "VPC_ID (VPC ?cfg) \<noteq> []"
    by (simp add: existingCluster_def)
  have priv: "Subnets_Private (Subnets (VPC (clusterConfig ?v))) = Some twoSubnets"
    by (simp add: NewIPv4VPCResourceSet_def existingCluster_def)
  have ends: "pagination_ends pagedDirectory (subnetIDsOf twoSubnets) None"
    by (rule pagedDirectory_ends)
  note inst = import_declares_nothing [of pagedDirectory ?v ?cfg "[]" pagedDirectory]
  from inst priv ends have ret: "importResources pagedDirectory ?v \<noteq> None"
    by blast
  have cc: "clusterConfig ?v = ?cfg"
    by (simp add: NewIPv4VPCResourceSet_def existingCluster_def)
  obtain v' where run: "addResources pagedDirectory ?v = Some (Inr (None, v'))"
    using h by (simp add: addResources_def cc import_twoSubnets_paged Let_def)
  from inst h run have same: "rs v' = []"
    by blast
  show ?thesis
    by (intro conjI exI [of _ v'] h priv ends ret run same)
qed

section \<open>Reconciling the private subnets of a fully-private import\<close>

lemma addAssociations_main:
  assumes "\<forall>rta \<in> set rtas. rta_Main rta \<noteq> Some True \<longrightarrow> rta_SubnetId rta \<noteq> None"
    and "\<exists>rta \<in> set rtas. rta_Main rta = Some True"
  shows "addAssociations (Some t) rtas m = Inr (Inl MainRouteTable)"
  using assms by (induction rtas arbitrary: m) (auto split: option.splits)

lemma addAssociations_ok:
  assumes "\<forall>rta \<in> set rtas. rta_Main rta \<noteq> Some True \<and> rta_SubnetId rta \<noteq> None"
  shows "\<exists>m'. addAssociations (Some t) rtas m = Inr (Inr m') \<and>
     (\<forall>subnetId. m' subnetId =
        (if filter (\<lambda>rta. rta_SubnetId rta = Some subnetId) rtas = [] then m subnetId else Some t))"
  using assms
proof (induction rtas arbitrary: m)
  case Nil
  then show ?case by simp
next
  case (Cons rta rtas)
  then obtain subnetId where sid: "rta_SubnetId rta = Some subnetId" and nm: "rta_Main rta \<noteq> Some True"
    by auto
  from Cons.prems have rest: "\<forall>rta \<in> set rtas. rta_Main rta \<noteq> Some True \<and> rta_SubnetId rta \<noteq> None"
    by simp
  from Cons.IH [OF rest, of "m(subnetId \<mapsto> t)"] obtain m' where
    m': "addAssociations (Some t) rtas (m(subnetId \<mapsto> t)) = Inr (Inr m')"
    and look: "\<forall>s. m' s =
        (if filter (\<lambda>rta. rta_SubnetId rta = Some s) rtas = [] then (m(subnetId \<mapsto> t)) s else Some t)"
    by blast
  have "addAssociations (Some t) (rta # rtas) m = Inr (Inr m')"
    using sid nm m' by simp
  moreover have "\<forall>s. m' s =
        (if filter (\<lambda>rta. rta_SubnetId rta = Some s) (rta # rtas) = [] then m s else Some t)"
    using look sid by auto
  ultimately show ?case by blast
qed

lemma associationsOf_Cons:
  "associationsOf (rt # tables) subnetId =
     map (\<lambda>rta. (rt, rta)) (filter (\<lambda>rta. rta_SubnetId rta = Some subnetId) (rt_Associations rt))
     @ associationsOf tables subnetId"
  by (simp add: associationsOf_def)

lemma addRouteTables_main:
  assumes "wellFormed tables" and "hasMainAssociation tables"
  shows "addRouteTables tables m = Inr (Inl MainRouteTable)"
  using assms
proof (induction tables arbitrary: m)
  case Nil
  then show ?case by (simp add: hasMainAssociation_def)
next
  case (Cons rt tables)
  from Cons.prems(1) obtain t where t: "rt_RouteTableId rt = Some t"
    and ids: "\<forall>rta \<in> set (rt_Associations rt). rta_Main rta \<noteq> Some True \<longrightarrow> rta_SubnetId rta \<noteq> None"
    and wf: "wellFormed tables"
    by (auto simp add: wellFormed_def)
  show ?case
  proof (cases "\<exists>rta \<in> set (rt_Associations rt). rta_Main rta = Some True")
    case True
    from addAssociations_main [OF ids True, of t m] t show ?thesis by simp
  next
    case False
    with ids have ok: "\<forall>rta \<in> set (rt_Associations rt). rta_Main rta \<noteq> Some True \<and> rta_SubnetId rta \<noteq> None"
      by blast
    from False Cons.prems(2) have main: "hasMainAssociation tables"
      by (auto simp add: hasMainAssociation_def)
    from addAssociations_ok [OF ok, of t m] obtain m' where
      "addAssociations (Some t) (rt_Associations rt) m = Inr (Inr m')" by blast
    with t Cons.IH [OF wf main, of m'] show ?thesis by simp
  qed
qed

lemma addRouteTables_ok:
  assumes "wellFormed tables" and "\<not> hasMainAssociation tables"
  shows "\<exists>m'. addRouteTables tables m = Inr (Inr m') \<and>
     (\<forall>subnetId. m' subnetId =
        (if associationsOf tables subnetId = [] then m subnetId
         else rt_RouteTableId (fst (last (associationsOf tables subnetId)))))"
  using assms
proof (induction tables arbitrary: m)
  case Nil
  then show ?case by (simp add: associationsOf_def)
next
  case (Cons rt tables)
  from Cons.prems(1) obtain t where t: "rt_RouteTableId rt = Some t"
    and ids: "\<forall>rta \<in> set (rt_Associations rt). rta_Main rta \<noteq> Some True \<longrightarrow> rta_SubnetId rta \<noteq> None"
    and wf: "wellFormed tables"
    by (auto simp add: wellFormed_def)
  from Cons.prems(2) have nomain: "\<forall>rta \<in> set (rt_Associations rt). rta_Main rta \<noteq> Some True"
    and rest: "\<not> hasMainAssociation tables"
    by (auto simp add: hasMainAssociation_def)
  from ids nomain have ok:
    "\<forall>rta \<in> set (rt_Associations rt). rta_Main rta \<noteq> Some True \<and> rta_SubnetId rta \<noteq> None"
    by blast
  from addAssociations_ok [OF ok, of t m] obtain m1 where
    m1: "addAssociations (Some t) (rt_Associations rt) m = Inr (Inr m1)"
    and look1: "\<forall>s. m1 s =
        (if filter (\<lambda>rta. rta_SubnetId rta = Some s) (rt_Associations rt) = [] then m s else Some t)"
    by blast
  from Cons.IH [OF wf rest, of m1] obtain m' where
    m': "addRouteTables tables m1 = Inr (Inr m')"
    and look: "\<forall>s. m' s =
        (if associationsOf tables s = [] then m1 s
         else rt_RouteTableId (fst (last (associationsOf tables s))))"
    by blast
  have run: "addRouteTables (rt # tables) m = Inr (Inr m')"
    using t m1 m' by simp
  have "\<forall>s. m' s =
        (if associationsOf (rt # tables) s = [] then m s
         else rt_RouteTableId (fst (last (associationsOf (rt # tables) s))))"
  proof
    fix s
    show "m' s =
        (if associationsOf (rt # tables) s = [] then m s
         else rt_RouteTableId (fst (last (associationsOf (rt # tables) s))))"
    proof (cases "associationsOf tables s = []")
      case True
      show ?thesis
      proof (cases "filter (\<lambda>rta. rta_SubnetId rta = Some s) (rt_Associations rt) = []")
        case True
        with \<open>associationsOf tables s = []\<close> look look1 show ?thesis
          by (simp add: associationsOf_Cons)
      next
        case False
        with \<open>associationsOf tables s = []\<close> look look1 t show ?thesis
          by (simp add: associationsOf_Cons last_map)
      qed
    next
      case False
      with look show ?thesis
        by (simp add: associationsOf_Cons)
    qed
  qed
  with run show ?case by blast
qed

lemma associationsOf_last_table:
  "associationsOf tables subnetId \<noteq> [] \<Longrightarrow> fst (last (associationsOf tables subnetId)) \<in> set tables"
proof -
  assume ne: "associationsOf tables subnetId \<noteq> []"
  have "fst ` set (associationsOf tables subnetId) \<subseteq> set tables"
    by (auto simp add: associationsOf_def)
  with last_in_set [OF ne] show ?thesis by blast
qed

lemma importResources_public_succeeds:
  "\<exists>v'. importResources_public v = (None, v') \<and>
     Private (subnetDetails v') = Private (subnetDetails v)"
  by (cases "Subnets_Public (Subnets (VPC (clusterConfig v)))")
    (simp_all add: importResources_public_def makeSubnetResources_def
      makeSubnetResources_loop_no_routes)

lemma import_reconciles:
  assumes fp: "isFullyPrivate v"
    and priv: "Subnets_Private (Subnets (VPC (clusterConfig v))) = Some subnets"
    and query: "describeAllRouteTables ec2 (subnetIDsOf subnets) None [] = Some (Inr tables)"
    and wf: "wellFormed tables"
  shows "hasMainAssociation tables \<Longrightarrow> importResources ec2 v = Some (Inr (Some MainRouteTable, v))"
    and "\<not> hasMainAssociation tables \<Longrightarrow>
           find (\<lambda>entry. associationsOf tables (ID (snd entry)) = []) subnets = Some entry \<Longrightarrow>
           importResources ec2 v = Some (Inr (Some (NoExplicitRouteTable (ID (snd entry))), v))"
    and "\<not> hasMainAssociation tables \<Longrightarrow>
           find (\<lambda>entry. associationsOf tables (ID (snd entry)) = []) subnets = None \<Longrightarrow>
           \<exists>v'. importResources ec2 v = Some (Inr (None, v')) \<and>
             Private (subnetDetails v') =
               map (\<lambda>entry.
                      \<lparr>Subnet = NewString (ID (snd entry)),
                       RouteTable = map_option NewString
                         (rt_RouteTableId (fst (last (associationsOf tables (ID (snd entry)))))),
                       AvailabilityZone = AZ (snd entry)\<rparr>) subnets"
proof -
  have q: "describeAllRouteTables ec2 (map (\<lambda>(name, subnet). ID subnet) subnets) None [] = Some (Inr tables)"
    using query by (simp add: subnetIDsOf_def)
  {
    assume main: "hasMainAssociation tables"
    have "importRouteTables ec2 subnets = Some (Inr (Inl MainRouteTable))"
      by (simp add: importRouteTables_def q addRouteTables_main [OF wf main])
    then show "importResources ec2 v = Some (Inr (Some MainRouteTable, v))"
      using fp priv by (simp add: importResources_def)
  }
  {
    assume nomain: "\<not> hasMainAssociation tables"
    from addRouteTables_ok [OF wf nomain, of Map.empty] obtain routes where
      run: "addRouteTables tables Map.empty = Inr (Inr routes)"
      and look: "\<forall>subnetId. routes subnetId =
        (if associationsOf tables subnetId = [] then None
         else rt_RouteTableId (fst (last (associationsOf tables subnetId))))"
      by auto
    have irt: "importRouteTables ec2 subnets = Some (Inr (Inr routes))"
      by (simp add: importRouteTables_def q run)
    have none_iff: "routes subnetId = None \<longleftrightarrow> associationsOf tables subnetId = []" for subnetId
    proof (cases "associationsOf tables subnetId = []")
      case True
      with look show ?thesis by simp
    next
      case False
      from associationsOf_last_table [OF False] wf
      have "rt_RouteTableId (fst (last (associationsOf tables subnetId))) \<noteq> None"
        by (simp add: wellFormed_def)
      with False look show ?thesis by simp
    qed
    have P: "(\<lambda>entry. routes (ID (snd entry)) = None) =
             (\<lambda>entry. associationsOf tables (ID (snd entry)) = [])"
      by (rule ext) (simp add: none_iff)
    have msr: "makeSubnetResources subnets (Some routes) =
       (case find (\<lambda>entry. associationsOf tables (ID (snd entry)) = []) subnets of
          Some entry \<Rightarrow> Inl (NoExplicitRouteTable (ID (snd entry)))
        | None \<Rightarrow>
            Inr (map (\<lambda>entry. \<lparr>Subnet = NewString (ID (snd entry)),
                                 RouteTable = map_option NewString (routes (ID (snd entry))),
                                 AvailabilityZone = AZ (snd entry)\<rparr>) subnets))"
      by (simp add: makeSubnetResources_def makeSubnetResources_loop_routes P split: option.splits)
    {
      assume "find (\<lambda>entry. associationsOf tables (ID (snd entry)) = []) subnets = Some entry"
      then show "importResources ec2 v = Some (Inr (Some (NoExplicitRouteTable (ID (snd entry))), v))"
        using fp priv irt msr by (simp add: importResources_def)
    }
    {
      assume all: "find (\<lambda>entry. associationsOf tables (ID (snd entry)) = []) subnets = None"
      then have each: "\<forall>entry \<in> set subnets. associationsOf tables (ID (snd entry)) \<noteq> []"
        by (auto simp add: find_None_iff)
      let ?private = "map (\<lambda>entry.
                      \<lparr>Subnet = NewString (ID (snd entry)),
                       RouteTable = map_option NewString
                         (rt_RouteTableId (fst (last (associationsOf tables (ID (snd entry)))))),
                       AvailabilityZone = AZ (snd entry)\<rparr>) subnets"
      have "map (\<lambda>entry. \<lparr>Subnet = NewString (ID (snd entry)),
                                 RouteTable = map_option NewString (routes (ID (snd entry))),
                                 AvailabilityZone = AZ (snd entry)\<rparr>) subnets = ?private"
        using each look by (intro map_cong) simp_all
      with msr all have msr': "makeSubnetResources subnets (Some routes) = Inr ?private"
        by simp
      from importResources_public_succeeds
        [of "v\<lparr>subnetDetails := (subnetDetails v)\<lparr>Private := ?private\<rparr>\<rparr>"]
      obtain v' where
        pub: "importResources_public (v\<lparr>subnetDetails := (subnetDetails v)\<lparr>Private := ?private\<rparr>\<rparr>) = (None, v')"
        and keep: "Private (subnetDetails v') = ?private"
        by auto
      have "importResources ec2 v = Some (Inr (None, v'))"
        using fp priv irt msr' pub by (simp add: importResources_def)
      with keep show "\<exists>v'. importResources ec2 v = Some (Inr (None, v')) \<and>
             Private (subnetDetails v') = ?private"
        by blast
    }
  }
qed

text \<open>
  C2 (as amended). Import reconciliation of the private subnets under fully-private
  mode, once the paginated query has answered with its tables, checks in this order.
  If any discovered association is flagged main, it fails with the invariant-violation
  error. Otherwise, if some subnet has no association on record, it fails with the
  not-found error naming the first such subnet in the order the subnets are enumerated.
  Otherwise it succeeds, and each private \<open>SubnetResource\<close> carries the subnet identifier
  and, as its route-table reference, the identifier of the table of the subnet's last
  discovered association, which is the table of its one association when it has exactly
  one. (The tables are well formed: each carries its identifier and each association
  not flagged main carries its subnet identifier.)
\<close>

theorem import_private_subnets_in_order:
  assumes "isFullyPrivate v"
    and "Subnets_Private (Subnets (VPC (clusterConfig v))) = Some subnets"
    and "describeAllRouteTables ec2 (subnetIDsOf subnets) None [] = Some (Inr tables)"
    and "wellFormed tables"
  shows "(hasMainAssociation tables \<longrightarrow>
            importResources ec2 v = Some (Inr (Some MainRouteTable, v))) \<and>
         (\<not> hasMainAssociation tables \<longrightarrow>
            (case find (\<lambda>entry. associationsOf tables (ID (snd entry)) = []) subnets of
               Some entry \<Rightarrow>
                 importResources ec2 v = Some (Inr (Some (NoExplicitRouteTable (ID (snd entry))), v))
             | None \<Rightarrow>
                 (\<exists>v'. importResources ec2 v = Some (Inr (None, v')) \<and>
                    Private (subnetDetails v') =
                      map (\<lambda>entry.
                             \<lparr>Subnet = NewString (ID (snd entry)),
                              RouteTable = map_option NewString
                                (rt_RouteTableId (fst (last (associationsOf tables (ID (snd entry)))))),
                              AvailabilityZone = AZ (snd entry)\<rparr>) subnets)))"
proof (intro conjI impI)
  assume "hasMainAssociation tables"
  then show "importResources ec2 v = Some (Inr (Some MainRouteTable, v))"
    by (rule import_reconciles(1) [OF assms])
next
  assume nomain: "\<not> hasMainAssociation tables"
  show "case find (\<lambda>entry. associationsOf tables (ID (snd entry)) = []) subnets of
               Some entry \<Rightarrow>
                 importResources ec2 v = Some (Inr (Some (NoExplicitRouteTable (ID (snd entry))), v))
             | None \<Rightarrow>
                 (\<exists>v'. importResources ec2 v = Some (Inr (None, v')) \<and>
                    Private (subnetDetails v') =
                      map (\<lambda>entry.
                             \<lparr>Subnet = NewString (ID (snd entry)),
                              RouteTable = map_option NewString
                                (rt_RouteTableId (fst (last (associationsOf tables (ID (snd entry)))))),
                              AvailabilityZone = AZ (snd entry)\<rparr>) subnets)"
  proof (cases "find (\<lambda>entry. associationsOf tables (ID (snd entry)) = []) subnets")
    case None
    from import_reconciles(3) [OF assms nomain None] None show ?thesis by simp
  next
    case (Some entry)
    from import_reconciles(2) [OF assms nomain Some] Some show ?thesis by simp
  qed
qed

lemma emptyDirectory_tables:
  "describeAllRouteTables emptyDirectory subnetIDs None [] = Some (Inr [])"
  by (subst describeAllRouteTables.simps) (simp add: emptyDirectory_def)

lemma pagedDirectory_pagedTables:
  "describeAllRouteTables pagedDirectory subnetIDs None [] = Some (Inr pagedTables)"
  by (simp add: pagedDirectory_tables pagedTables_def)

lemma mainTableDirectory_mainTables:
  "describeAllRouteTables mainTableDirectory subnetIDs None [] = Some (Inr mainTables)"
  by (simp add: mainTableDirectory_tables mainTables_def)

theorem import_private_subnets_in_order_witness:
  "isFullyPrivate (NewIPv4VPCResourceSet [] (existingCluster True (Some twoSubnets) None)) \<and>
   Subnets_Private (Subnets (VPC (clusterConfig
       (NewIPv4VPCResourceSet [] (existingCluster True (Some twoSubnets) None))))) = Some twoSubnets \<and>
   describeAllRouteTables pagedDirectory (subnetIDsOf twoSubnets) None [] = Some (Inr pagedTables) \<and>
   wellFormed pagedTables \<and> \<not> hasMainAssociation pagedTables \<and>
   (\<exists>v'. importResources pagedDirectory
            (NewIPv4VPCResourceSet [] (existingCluster True (Some twoSubnets) None))
          = Some (Inr (None, v')) \<and>
      Private (subnetDetails v') =
        [\<lparr>Subnet = NewString ''subnet-a'', RouteTable = Some (NewString ''rtb-a''),
          AvailabilityZone = ''us-east-1a''\<rparr>,
         \<lparr>Subnet = NewString ''subnet-b'', RouteTable = Some (NewString ''rtb-b''),
          AvailabilityZone = ''us-east-1b''\<rparr>]) \<and>
   describeAllRouteTables mainTableDirectory (subnetIDsOf twoSubnets) None [] = Some (Inr mainTables) \<and>
   wellFormed mainTables \<and> hasMainAssociation mainTables \<and>
   importResources mainTableDirectory
       (NewIPv4VPCResourceSet [] (existingCluster True (Some twoSubnets) None))
     = Some (Inr (Some MainRouteTable,
                  NewIPv4VPCResourceSet [] (existingCluster True (Some twoSubnets) None))) \<and>
   describeAllRouteTables emptyDirectory (subnetIDsOf twoSubnets) None [] = Some (Inr []) \<and>
   importResources emptyDirectory
       (NewIPv4VPCResourceSet [] (existingCluster True (Some twoSubnets) None))
     = Some (Inr (Some (NoExplicitRouteTable ''subnet-a''),
                  NewIPv4VPCResourceSet [] (existingCluster True (Some twoSubnets) None)))"
proof -
  let ?cfg = "existingCluster True (Some twoSubnets) None"
  let ?v = "NewIPv4VPCResourceSet [] ?cfg"
  have fp: "isFullyPrivate ?v"
    by (simp add: isFullyPrivate_def NewIPv4VPCResourceSet_def existingCluster_def)
  have priv: "Subnets_Private (Subnets (VPC (clusterConfig ?v))) = Some twoSubnets"
    by (simp add: NewIPv4VPCResourceSet_def existingCluster_def)
  have q1: "describeAllRouteTables pagedDirectory (subnetIDsOf twoSubnets) None [] = Some (Inr pagedTables)"
    by (rule pagedDirectory_pagedTables)
  have wf1: "wellFormed pagedTables"
    by (simp add: wellFormed_def pagedTables_def)
  have nm1: "\<not> hasMainAssociation pagedTables"
    by (simp add: hasMainAssociation_def pagedTables_def)
  have all1: "find (\<lambda>entry. associationsOf pagedTables (ID (snd entry)) = []) twoSubnets = None"
    by (simp add: associationsOf_def pagedTables_def twoSubnets_def importedSubnet_def)
  from import_private_subnets_in_order [OF fp priv q1 wf1] nm1 all1 obtain v' where
    run1: "importResources pagedDirectory ?v = Some (Inr (None, v'))"
    and priv_eq: "Private (subnetDetails v') =
                      map (\<lambda>entry.
                             \<lparr>Subnet = NewString (ID (snd entry)),
                              RouteTable = map_option NewString
                                (rt_RouteTableId (fst (last (associationsOf pagedTables (ID (snd entry)))))),
                              AvailabilityZone = AZ (snd entry)\<rparr>) twoSubnets"
    by auto
  have priv_list: "Private (subnetDetails v') =
        [\<lparr>Subnet = NewString ''subnet-a'', RouteTable = Some (NewString ''rtb-a''),
          AvailabilityZone = ''us-east-1a''\<rparr>,
         \<lparr>Subnet = NewString ''subnet-b'', RouteTable = Some (NewString ''rtb-b''),
          AvailabilityZone = ''us-east-1b''\<rparr>]"
    unfolding priv_eq
    by (simp add: associationsOf_def pagedTables_def twoSubnets_def importedSubnet_def)
  have q2: "describeAllRouteTables mainTableDirectory (subnetIDsOf twoSubnets) None [] = Some (Inr mainTables)"
    by (rule mainTableDirectory_mainTables)
  have wf2: "wellFormed mainTables"
    by (simp add: wellFormed_def mainTables_def)
  have m2: "hasMainAssociation mainTables"
    by (simp add: hasMainAssociation_def mainTables_def)
  from import_private_subnets_in_order [OF fp priv q2 wf2] m2
  have run2: "importResources mainTableDirectory ?v = Some (Inr (Some MainRouteTable, ?v))"
    by blast
  have q3: "describeAllRouteTables emptyDirectory (subnetIDsOf twoSubnets) None [] = Some (Inr [])"
    by (rule emptyDirectory_tables)
  have wf3: "wellFormed []" and nm3: "\<not> hasMainAssociation []"
    by (simp_all add: wellFormed_def hasMainAssociation_def)
  have first3: "find (\<lambda>entry. associationsOf [] (ID (snd entry)) = []) twoSubnets =
                  Some (importedSubnet ''us-east-1a'' ''subnet-a'' ''us-east-1a'')"
    by (simp add: associationsOf_def twoSubnets_def)
  from import_private_subnets_in_order [OF fp priv q3 wf3] nm3 first3
  have run3: "importResources emptyDirectory ?v = Some (Inr (Some (NoExplicitRouteTable ''subnet-a''), ?v))"
    by (simp add: importedSubnet_def)
  show ?thesis
    by (intro conjI exI [of _ v'] fp priv q1 wf1 nm1 run1 priv_list q2 wf2 m2 run2 q3 run3)
qed

text \<open>
  C2 as stated fails where its cases overlap. With the second subnet associated to the
  main route table, the first subnet has no association on record and the second has
  exactly one association not flagged main, yet the import neither reports the first
  subnet as not found nor succeeds: it fails with the invariant-violation error.
\<close>

theorem import_main_table_wins:
  "associationsOf mainTables ''subnet-a'' = [] \<and>
   map (\<lambda>a. (rt_RouteTableId (fst a), rta_Main (snd a))) (associationsOf mainTables ''subnet-b'') =
     [(Some ''rtb-main'', Some False)] \<and>
   describeAllRouteTables mainTableDirectory (subnetIDsOf twoSubnets) None [] = Some (Inr mainTables) \<and>
   outcomeOf (importResources mainTableDirectory
      (NewIPv4VPCResourceSet [] (existingCluster True (Some twoSubnets) None))) = Failed MainRouteTable"
  by (simp add: associationsOf_def mainTables_def mainTableDirectory_tables outcomeOf_def
      importResources_def importRouteTables_def NewIPv4VPCResourceSet_def existingCluster_def
      twoSubnets_def importedSubnet_def isFullyPrivate_def Let_def)

end
